theory Spec2Isabelle
  imports Main "HOL-Library.Sublist" "HOL-Library.Multiset"
begin

section \<open>JavaScript strings\<close>

text \<open>
  A JavaScript string is a sequence of UTF-16 code units; the model keeps each code unit
  as its number. \<open>js ''abc''\<close> is the string of an ASCII literal of the source.
  \<open>toLowerCase\<close> and \<open>toUpperCase\<close> are modelled on Basic Latin and on the
  Cyrillic letters U+0400 to U+045F (the letters the source's own patterns and the
  trackers' titles use); any other code unit is left as it is.
\<close>

type_synonym jsstring = "nat list"

definition js :: "string \<Rightarrow> jsstring" where
  "js s = map of_char s"

definition toLowerUnit :: "nat \<Rightarrow> nat" where
  "toLowerUnit c =
     (if 0x41 \<le> c \<and> c \<le> 0x5A then c + 0x20
      else if 0x410 \<le> c \<and> c \<le> 0x42F then c + 0x20
      else if 0x400 \<le> c \<and> c \<le> 0x40F then c + 0x50
      else c)"

definition toUpperUnit :: "nat \<Rightarrow> nat" where
  "toUpperUnit c =
     (if 0x61 \<le> c \<and> c \<le> 0x7A then c - 0x20
      else if 0x430 \<le> c \<and> c \<le> 0x44F then c - 0x20
      else if 0x450 \<le> c \<and> c \<le> 0x45F then c - 0x50
      else c)"

definition toLowerCase :: "jsstring \<Rightarrow> jsstring" where
  "toLowerCase s = map toLowerUnit s"

definition toUpperCase :: "jsstring \<Rightarrow> jsstring" where
  "toUpperCase s = map toUpperUnit s"

text \<open>\<open>s.startsWith(p)\<close>, \<open>s.endsWith(p)\<close> and \<open>s.includes(p)\<close>.\<close>

fun startsWith :: "jsstring \<Rightarrow> jsstring \<Rightarrow> bool" where
  "startsWith s [] = True"
| "startsWith [] (p # ps) = False"
| "startsWith (c # cs) (p # ps) = (c = p \<and> startsWith cs ps)"

definition endsWith :: "jsstring \<Rightarrow> jsstring \<Rightarrow> bool" where
  "endsWith s p = startsWith (rev s) (rev p)"

fun strIncludes :: "jsstring \<Rightarrow> jsstring \<Rightarrow> bool" where
  "strIncludes [] p = (p = [])"
| "strIncludes (c # cs) p = (startsWith (c # cs) p \<or> strIncludes cs p)"

section \<open>Candidates\<close>

text \<open>
  A torrent as the searchers build it. A field the object may lack (or hold as
  \<open>undefined\<close>/\<open>null\<close>) is an option.
\<close>

record torrent =
  title :: jsstring
  infoHash :: "jsstring option"
  sizeText :: "jsstring option"
  seeders :: "int option"
  quality :: "jsstring option"
  source :: jsstring

section \<open>lib/utils.js: removeDuplicates\<close>

text \<open>
  \<open>torrents.filter(torrent => ...)\<close> with the closure's \<open>seen\<close> set threaded through
  the traversal. \<open>!torrent.infoHash\<close> holds for a missing and for an empty hash.
\<close>

fun removeDuplicatesFrom :: "jsstring set \<Rightarrow> torrent list \<Rightarrow> torrent list" where
  "removeDuplicatesFrom seen [] = []"
| "removeDuplicatesFrom seen (t # ts) =
     (case infoHash t of
        None \<Rightarrow> t # removeDuplicatesFrom seen ts
      | Some h \<Rightarrow>
          if h = [] then t # removeDuplicatesFrom seen ts
          else if toUpperCase h \<in> seen then removeDuplicatesFrom seen ts
          else t # removeDuplicatesFrom (insert (toUpperCase h) seen) ts)"

definition removeDuplicates :: "torrent list \<Rightarrow> torrent list" where
  "removeDuplicates torrents = removeDuplicatesFrom {} torrents"

text \<open>
  The identity of a candidate for deduplication: its upper-cased hash, when it has a
  non-empty one.
\<close>

definition hashKey :: "torrent \<Rightarrow> jsstring option" where
  "hashKey t =
     (case infoHash t of
        None \<Rightarrow> None
      | Some h \<Rightarrow> if h = [] then None else Some (toUpperCase h))"

text \<open>The claim's reading: no two entries of a list have equal case-normalised hashes.\<close>

definition noEqualHashes :: "torrent list \<Rightarrow> bool" where
  "noEqualHashes ts = distinct (map (\<lambda>t. map_option toUpperCase (infoHash t)) ts)"

section \<open>lib/utils.js: parseQuality\<close>

text \<open>
  The object \<open>quality\<close> that \<open>parseQuality\<close> builds. A field still \<open>null\<close> when the
  function returns is \<open>None\<close>: the descriptor's "unknown". The object's field \<open>source\<close>
  is \<open>sourceType\<close> here (\<open>source\<close> is the torrent's field).
\<close>

record qualityInfo =
  resolution :: "jsstring option"
  sourceType :: "jsstring option"
  codec :: "jsstring option"
  audio :: "jsstring option"
  hdr :: bool

definition parseQuality :: "jsstring \<Rightarrow> qualityInfo" where
  "parseQuality t =
     (let titleLower = toLowerCase t;
          has = (\<lambda>k. strIncludes titleLower (js k))
      in \<lparr>resolution =
            (if has ''2160p'' \<or> has ''4k'' \<or> has ''uhd'' then Some (js ''4K'')
             else if has ''1080p'' then Some (js ''1080p'')
             else if has ''720p'' then Some (js ''720p'')
             else if has ''480p'' then Some (js ''480p'')
             else None),
          sourceType =
            (if has ''remux'' then Some (js ''REMUX'')
             else if has ''bluray'' \<or> has ''bdrip'' \<or> has ''brrip'' then Some (js ''BluRay'')
             else if has ''web-dl'' \<or> has ''webdl'' then Some (js ''WEB-DL'')
             else if has ''webrip'' then Some (js ''WEBRip'')
             else if has ''hdtv'' then Some (js ''HDTV'')
             else if has ''dvdrip'' then Some (js ''DVDRip'')
             else if has ''cam'' \<or> has ''camrip'' then Some (js ''CAM'')
             else if has ''ts'' \<or> has ''telesync'' then Some (js ''TS'')
             else None),
          codec =
            (if has ''hevc'' \<or> has ''h265'' \<or> has ''x265'' then Some (js ''HEVC'')
             else if has ''h264'' \<or> has ''x264'' \<or> has ''avc'' then Some (js ''H.264'')
             else if has ''av1'' then Some (js ''AV1'')
             else None),
          audio =
            (if has ''atmos'' then Some (js ''Dolby Atmos'')
             else if has ''truehd'' then Some (js ''TrueHD'')
             else if has ''dts-hd'' \<or> has ''dts-ma'' then Some (js ''DTS-HD'')
             else if has ''dts'' then Some (js ''DTS'')
             else if has ''dd5.1'' \<or> has ''ac3'' then Some (js ''DD 5.1'')
             else if has ''aac'' then Some (js ''AAC'')
             else None),
          hdr = (has ''hdr'' \<or> has ''hdr10'' \<or> has ''dolby vision'' \<or> has ''dv'')\<rparr>)"

text \<open>The keywords that each field of the descriptor is decided by, in the source's order.\<close>

definition resolutionKeywords :: "jsstring list" where
  "resolutionKeywords = map js [''2160p'', ''4k'', ''uhd'', ''1080p'', ''720p'', ''480p'']"

definition sourceKeywords :: "jsstring list" where
  "sourceKeywords = map js [''remux'', ''bluray'', ''bdrip'', ''brrip'', ''web-dl'', ''webdl'',
     ''webrip'', ''hdtv'', ''dvdrip'', ''cam'', ''camrip'', ''ts'', ''telesync'']"

definition codecKeywords :: "jsstring list" where
  "codecKeywords = map js [''hevc'', ''h265'', ''x265'', ''h264'', ''x264'', ''avc'', ''av1'']"

definition audioKeywords :: "jsstring list" where
  "audioKeywords = map js [''atmos'', ''truehd'', ''dts-hd'', ''dts-ma'', ''dts'', ''dd5.1'',
     ''ac3'', ''aac'']"

definition hdrKeywords :: "jsstring list" where
  "hdrKeywords = map js [''hdr'', ''hdr10'', ''dolby vision'', ''dv'']"

definition noKeyword :: "jsstring list \<Rightarrow> jsstring \<Rightarrow> bool" where
  "noKeyword ks t = (\<not> list_ex (strIncludes (toLowerCase t)) ks)"

section \<open>Characters, errors and regular expressions\<close>

text \<open>The exceptions of the modelled code: a thrown \<open>TypeError\<close> or \<open>URIError\<close>.\<close>

datatype jsError = TypeError | URIError

text \<open>
  The character classes of the source's regular expressions: \<open>\d\<close>, \<open>[a-fA-F0-9]\<close>,
  the word characters that decide \<open>\b\<close>, \<open>\s\<close>, and the line terminators that
  \<open>.\<close> does not match.
\<close>

definition isDigit :: "nat \<Rightarrow> bool" where
  "isDigit c = (0x30 \<le> c \<and> c \<le> 0x39)"

definition isHexDigit :: "nat \<Rightarrow> bool" where
  "isHexDigit c = (isDigit c \<or> (0x41 \<le> c \<and> c \<le> 0x46) \<or> (0x61 \<le> c \<and> c \<le> 0x66))"

definition isWordChar :: "nat \<Rightarrow> bool" where
  "isWordChar c = (isDigit c \<or> (0x41 \<le> c \<and> c \<le> 0x5A) \<or> (0x61 \<le> c \<and> c \<le> 0x7A) \<or> c = 0x5F)"

definition isWhiteSpace :: "nat \<Rightarrow> bool" where
  "isWhiteSpace c =
     (c \<in> {0x09, 0x0A, 0x0B, 0x0C, 0x0D, 0x20, 0xA0, 0x1680, 0x2028, 0x2029, 0x202F,
            0x205F, 0x3000, 0xFEFF} \<or> (0x2000 \<le> c \<and> c \<le> 0x200A))"

definition isLineTerminator :: "nat \<Rightarrow> bool" where
  "isLineTerminator c = (c \<in> {0x0A, 0x0D, 0x2028, 0x2029})"

text \<open>
  The regular expressions of the source are sequences of single-character atoms, each
  taken once, optionally (\<open>?\<close>) or any number of times (\<open>*\<close>), and of the two
  assertions \<open>(?!\d)\<close> and \<open>\b\<close>. \<open>matchHere ic rx prev s\<close> says that \<open>rx\<close> matches
  a prefix of \<open>s\<close>, where \<open>prev\<close> is the code unit before \<open>s\<close> (for \<open>\b\<close>) and \<open>ic\<close>
  the flag \<open>i\<close>; a quantifier tries every number of repetitions, as backtracking does.
  Under the flag \<open>i\<close> two code units match when their upper-case forms agree.
  \<open>firstMatch\<close> is the leftmost position where the expression matches (the rest of
  the string from there), which is what \<open>test\<close> and \<open>match\<close> look for.
\<close>

datatype atom = Ch nat | Digit | NonDigit | Space | AnyChar | HexDigit

datatype item = One atom | Star atom | Opt atom | NotDigitAhead | WordBoundary

fun atomMatches :: "bool \<Rightarrow> atom \<Rightarrow> nat \<Rightarrow> bool" where
  "atomMatches ic (Ch p) c = (if ic then toUpperUnit c = toUpperUnit p else c = p)"
| "atomMatches ic Digit c = isDigit c"
| "atomMatches ic NonDigit c = (\<not> isDigit c)"
| "atomMatches ic Space c = isWhiteSpace c"
| "atomMatches ic AnyChar c = (\<not> isLineTerminator c)"
| "atomMatches ic HexDigit c = isHexDigit c"

fun wordBefore :: "nat option \<Rightarrow> bool" where
  "wordBefore None = False"
| "wordBefore (Some c) = isWordChar c"

fun wordAhead :: "jsstring \<Rightarrow> bool" where
  "wordAhead [] = False"
| "wordAhead (c # cs) = isWordChar c"

fun digitAhead :: "jsstring \<Rightarrow> bool" where
  "digitAhead [] = False"
| "digitAhead (c # cs) = isDigit c"

fun matchHere :: "bool \<Rightarrow> item list \<Rightarrow> nat option \<Rightarrow> jsstring \<Rightarrow> bool" where
  "matchHere ic [] prev s = True"
| "matchHere ic (One a # r) prev [] = False"
| "matchHere ic (One a # r) prev (c # cs) =
     (if atomMatches ic a c then matchHere ic r (Some c) cs else False)"
| "matchHere ic (Star a # r) prev [] = matchHere ic r prev []"
| "matchHere ic (Star a # r) prev (c # cs) =
     (if atomMatches ic a c
      then (if matchHere ic (Star a # r) (Some c) cs then True
            else matchHere ic r prev (c # cs))
      else matchHere ic r prev (c # cs))"
| "matchHere ic (Opt a # r) prev [] = matchHere ic r prev []"
| "matchHere ic (Opt a # r) prev (c # cs) =
     (if atomMatches ic a c
      then (if matchHere ic r (Some c) cs then True else matchHere ic r prev (c # cs))
      else matchHere ic r prev (c # cs))"
| "matchHere ic (NotDigitAhead # r) prev s =
     (if digitAhead s then False else matchHere ic r prev s)"
| "matchHere ic (WordBoundary # r) prev s =
     (if wordBefore prev = wordAhead s then False else matchHere ic r prev s)"

fun firstMatch :: "bool \<Rightarrow> item list \<Rightarrow> nat option \<Rightarrow> jsstring \<Rightarrow> jsstring option" where
  "firstMatch ic rx prev [] = (if matchHere ic rx prev [] then Some [] else None)"
| "firstMatch ic rx prev (c # cs) =
     (if matchHere ic rx prev (c # cs) then Some (c # cs) else firstMatch ic rx (Some c) cs)"

definition regexTest :: "bool \<Rightarrow> item list \<Rightarrow> jsstring \<Rightarrow> bool" where
  "regexTest ic rx s = (firstMatch ic rx None s \<noteq> None)"

definition lit :: "jsstring \<Rightarrow> item list" where
  "lit s = map (\<lambda>c. One (Ch c)) s"

section \<open>lib/utils.js: extractInfoHash and createMagnetLink\<close>

text \<open>
  \<open>/btih:([a-fA-F0-9]{40})/i\<close>. The expression has a fixed length, so its group is the
  40 code units after the first 5 of the match.
\<close>

definition btihRegex :: "item list" where
  "btihRegex = lit (js ''btih:'') @ replicate 40 (One HexDigit)"

definition extractInfoHash :: "jsstring \<Rightarrow> jsstring option" where
  "extractInfoHash magnet =
     (if magnet = [] then None
      else case firstMatch True btihRegex None magnet of
             None \<Rightarrow> None
           | Some m \<Rightarrow> Some (toUpperCase (take 40 (drop 5 m))))"

text \<open>
  \<open>encodeURIComponent\<close>: the unreserved characters stay, every other code point is
  written as the percent-escaped bytes of its UTF-8 form, and a surrogate without its
  partner throws \<open>URIError\<close>.
\<close>

definition isAlpha :: "nat \<Rightarrow> bool" where
  "isAlpha c = ((0x41 \<le> c \<and> c \<le> 0x5A) \<or> (0x61 \<le> c \<and> c \<le> 0x7A))"

definition isUriUnreserved :: "nat \<Rightarrow> bool" where
  "isUriUnreserved c =
     (isAlpha c \<or> isDigit c \<or> c \<in> {0x2D, 0x5F, 0x2E, 0x21, 0x7E, 0x2A, 0x27, 0x28, 0x29})"

definition isHighSurrogate :: "nat \<Rightarrow> bool" where
  "isHighSurrogate c = (0xD800 \<le> c \<and> c \<le> 0xDBFF)"

definition isLowSurrogate :: "nat \<Rightarrow> bool" where
  "isLowSurrogate c = (0xDC00 \<le> c \<and> c \<le> 0xDFFF)"

definition utf8 :: "nat \<Rightarrow> nat list" where
  "utf8 cp =
     (if cp < 0x80 then [cp]
      else if cp < 0x800 then [0xC0 + cp div 0x40, 0x80 + cp mod 0x40]
      else if cp < 0x10000 then
        [0xE0 + cp div 0x1000, 0x80 + (cp div 0x40) mod 0x40, 0x80 + cp mod 0x40]
      else
        [0xF0 + cp div 0x40000, 0x80 + (cp div 0x1000) mod 0x40,
         0x80 + (cp div 0x40) mod 0x40, 0x80 + cp mod 0x40])"

definition hexUpper :: "nat \<Rightarrow> nat" where
  "hexUpper n = (if n < 10 then 0x30 + n else 0x37 + n)"

definition percentEncode :: "nat \<Rightarrow> jsstring" where
  "percentEncode cp = concat (map (\<lambda>b. [0x25, hexUpper (b div 16), hexUpper (b mod 16)]) (utf8 cp))"

fun encodeURIComponent :: "jsstring \<Rightarrow> jsError + jsstring" where
  "encodeURIComponent [] = Inr []"
| "encodeURIComponent (c # cs) =
     (if isUriUnreserved c then
        (case encodeURIComponent cs of Inl e \<Rightarrow> Inl e | Inr r \<Rightarrow> Inr (c # r))
      else if isLowSurrogate c then Inl URIError
      else if isHighSurrogate c then
        (case cs of
           [] \<Rightarrow> Inl URIError
         | d # ds \<Rightarrow>
             if isLowSurrogate d then
               (case encodeURIComponent ds of
                  Inl e \<Rightarrow> Inl e
                | Inr r \<Rightarrow>
                    Inr (percentEncode ((c - 0xD800) * 0x400 + (d - 0xDC00) + 0x10000) @ r))
             else Inl URIError)
      else
        (case encodeURIComponent cs of
           Inl e \<Rightarrow> Inl e
         | Inr r \<Rightarrow> Inr (percentEncode c @ r)))"

text \<open>\<open>String.prototype.isWellFormed\<close>: the string has no lone surrogate.\<close>

fun isWellFormed :: "jsstring \<Rightarrow> bool" where
  "isWellFormed [] = True"
| "isWellFormed [c] = (\<not> isHighSurrogate c \<and> \<not> isLowSurrogate c)"
| "isWellFormed (c # d # ds) =
     (if isHighSurrogate c then isLowSurrogate d \<and> isWellFormed ds
      else \<not> isLowSurrogate c \<and> isWellFormed (d # ds))"

definition defaultTrackers :: "jsstring list" where
  "defaultTrackers = map js
     [''udp://tracker.opentrackr.org:1337/announce'',
      ''udp://tracker.openbittorrent.com:80/announce'',
      ''udp://open.stealth.si:80/announce'',
      ''udp://tracker.torrent.eu.org:451/announce'',
      ''udp://tracker.moeking.me:6969/announce'']"

text \<open>
  \<open>allTrackers.forEach(tracker => { magnet += ... })\<close>, and the function itself. The
  optional \<open>name\<close> is \<open>None\<close> when it is absent or \<open>null\<close>; \<open>if (name)\<close> also skips the
  empty string.
\<close>

fun appendTrackers :: "jsstring \<Rightarrow> jsstring list \<Rightarrow> jsError + jsstring" where
  "appendTrackers magnet [] = Inr magnet"
| "appendTrackers magnet (tracker # rest) =
     (case encodeURIComponent tracker of
        Inl e \<Rightarrow> Inl e
      | Inr enc \<Rightarrow> appendTrackers (magnet @ js ''&tr='' @ enc) rest)"

definition createMagnetLink ::
  "jsstring \<Rightarrow> jsstring option \<Rightarrow> jsstring list \<Rightarrow> jsError + jsstring" where
  "createMagnetLink h name trackers =
     (let magnet = js ''magnet:?xt=urn:btih:'' @ toUpperCase h;
          named =
            (case name of
               None \<Rightarrow> Inr magnet
             | Some n \<Rightarrow>
                 if n = [] then Inr magnet
                 else (case encodeURIComponent n of
                         Inl e \<Rightarrow> Inl e
                       | Inr enc \<Rightarrow> Inr (magnet @ js ''&dn='' @ enc)))
      in case named of
           Inl e \<Rightarrow> Inl e
         | Inr magnet' \<Rightarrow> appendTrackers magnet' (defaultTrackers @ trackers))"

text \<open>The arguments on which \<open>encodeURIComponent\<close> does not throw.\<close>

definition wellFormedArgs :: "jsstring option \<Rightarrow> jsstring list \<Rightarrow> bool" where
  "wellFormedArgs name trackers =
     ((case name of None \<Rightarrow> True | Some n \<Rightarrow> isWellFormed n) \<and> list_all isWellFormed trackers)"

text \<open>A 40-character hexadecimal string, and an upper-case hexadecimal digit.\<close>

definition isInfoHash :: "jsstring \<Rightarrow> bool" where
  "isInfoHash h = (length h = 40 \<and> list_all isHexDigit h)"

definition isUpperHex :: "nat \<Rightarrow> bool" where
  "isUpperHex c = (isDigit c \<or> (0x41 \<le> c \<and> c \<le> 0x46))"

text \<open>
  The round trip of the claim: the magnet link is created, and the hash extracted from
  it is the upper-cased hash it was created from.
\<close>

definition magnetRoundTrip :: "jsstring \<Rightarrow> jsstring option \<Rightarrow> jsstring list \<Rightarrow> bool" where
  "magnetRoundTrip h name trackers =
     (case createMagnetLink h name trackers of
        Inl e \<Rightarrow> False
      | Inr m \<Rightarrow> extractInfoHash m = Some (toUpperCase h))"

section \<open>Season and episode numbers\<close>

text \<open>
  The season and the episode are \<open>null\<close>, or what \<open>parseInt\<close> returns: \<open>NaN\<close> or an
  integer. \<open>toStr\<close> is the string a template literal and \<open>toString\<close> give: the decimal
  digits of an integer (integers of less than 22 digits, which JavaScript prints without
  an exponent).
\<close>

datatype jsnumber = JNull | JNaN | JInt int

function natToString :: "nat \<Rightarrow> jsstring" where
  "natToString n = (if n < 10 then [0x30 + n] else natToString (n div 10) @ [0x30 + n mod 10])"
  by pat_completeness auto
termination
  by (relation "measure (\<lambda>n. n)") auto

declare natToString.simps [simp del]

fun toStr :: "jsnumber \<Rightarrow> jsstring" where
  "toStr JNull = js ''null''"
| "toStr JNaN = js ''NaN''"
| "toStr (JInt i) = (if i < 0 then 0x2D # natToString (nat (- i)) else natToString (nat i))"

text \<open>\<open>s.padStart(2, '0')\<close>.\<close>

definition padStart2 :: "jsstring \<Rightarrow> jsstring" where
  "padStart2 s = replicate (2 - length s) 0x30 @ s"

section \<open>Files of a torrent\<close>

text \<open>
  A file object: \<open>path\<close> and \<open>name\<close> (here \<open>fileName\<close>), each possibly absent.
  \<open>file.path || file.name || ''\<close> skips an absent and an empty string.
\<close>

record fileEntry =
  path :: "jsstring option"
  fileName :: "jsstring option"

definition truthy :: "jsstring option \<Rightarrow> bool" where
  "truthy v = (case v of None \<Rightarrow> False | Some s \<Rightarrow> s \<noteq> [])"

definition entryName :: "fileEntry \<Rightarrow> jsstring" where
  "entryName file =
     toLowerCase
       (if truthy (path file) then the (path file)
        else if truthy (fileName file) then the (fileName file)
        else [])"

text \<open>\<open>exts.some(ext => name.endsWith(ext))\<close>.\<close>

definition hasExt :: "jsstring list \<Rightarrow> jsstring \<Rightarrow> bool" where
  "hasExt exts name = list_ex (endsWith name) exts"

section \<open>lib/utils.js: findEpisodeFile\<close>

definition videoExts :: "jsstring list" where
  "videoExts = map js [''.mkv'', ''.mp4'', ''.avi'', ''.mov'', ''.wmv'']"

text \<open>
  The four expressions, all with the flag \<open>i\<close>:
  \<open>s0*${season}e0*${episode}(?!\d)\<close>, \<open>\b${season}x0*${episode}(?!\d)\<close>,
  \<open>season\s*0*${season}.*episode\s*0*${episode}\<close> and the same with the Cyrillic
  words U+0441 U+0435 U+0437 U+043E U+043D and U+0441 U+0435 U+0440 U+0438 U+044F.
\<close>

definition zeros :: item where
  "zeros = Star (Ch 0x30)"

definition episodePatterns :: "jsnumber \<Rightarrow> jsnumber \<Rightarrow> item list list" where
  "episodePatterns season episode =
     [lit (js ''s'') @ [zeros] @ lit (toStr season) @ lit (js ''e'') @ [zeros] @
        lit (toStr episode) @ [NotDigitAhead],
      [WordBoundary] @ lit (toStr season) @ lit (js ''x'') @ [zeros] @
        lit (toStr episode) @ [NotDigitAhead],
      lit (js ''season'') @ [Star Space, zeros] @ lit (toStr season) @ [Star AnyChar] @
        lit (js ''episode'') @ [Star Space, zeros] @ lit (toStr episode),
      lit [0x441, 0x435, 0x437, 0x43E, 0x43D] @ [Star Space, zeros] @ lit (toStr season) @
        [Star AnyChar] @ lit [0x441, 0x435, 0x440, 0x438, 0x44F] @ [Star Space, zeros] @
        lit (toStr episode)]"

text \<open>\<open>patterns.some(pattern => pattern.test(name))\<close>.\<close>

definition matchesAny :: "item list list \<Rightarrow> jsstring \<Rightarrow> bool" where
  "matchesAny patterns name = list_ex (\<lambda>pattern. regexTest True pattern name) patterns"

text \<open>The two loops, with the loop index \<open>i\<close>; the result is \<open>i + 1\<close>, and \<open>None\<close> is \<open>null\<close>.\<close>

fun findMatching :: "item list list \<Rightarrow> nat \<Rightarrow> fileEntry list \<Rightarrow> nat option" where
  "findMatching patterns i [] = None"
| "findMatching patterns i (file # files) =
     (if \<not> hasExt videoExts (entryName file) then findMatching patterns (i + 1) files
      else if matchesAny patterns (entryName file) then Some (i + 1)
      else findMatching patterns (i + 1) files)"

fun firstVideo :: "nat \<Rightarrow> fileEntry list \<Rightarrow> nat option" where
  "firstVideo i [] = None"
| "firstVideo i (file # files) =
     (if hasExt videoExts (entryName file) then Some (i + 1) else firstVideo (i + 1) files)"

definition findEpisodeFile :: "fileEntry list \<Rightarrow> jsnumber \<Rightarrow> jsnumber \<Rightarrow> nat option" where
  "findEpisodeFile files season episode =
     (case findMatching (episodePatterns season episode) 0 files of
        Some k \<Rightarrow> Some k
      | None \<Rightarrow> firstVideo 0 files)"

text \<open>
  The Episode Matcher in the specification's words: the 1-based index of the first file,
  in the list's order, that is a video file and matches one of the patterns; failing
  that, of the first video file; failing that, not found.
\<close>

definition firstIndexWhere :: "(fileEntry \<Rightarrow> bool) \<Rightarrow> fileEntry list \<Rightarrow> nat option" where
  "firstIndexWhere P files = map_option fst (find (\<lambda>(k, file). P file) (enumerate 1 files))"

definition isVideoFile :: "fileEntry \<Rightarrow> bool" where
  "isVideoFile file = hasExt videoExts (entryName file)"

definition matchesEpisode :: "jsnumber \<Rightarrow> jsnumber \<Rightarrow> fileEntry \<Rightarrow> bool" where
  "matchesEpisode season episode file =
     (isVideoFile file \<and> matchesAny (episodePatterns season episode) (entryName file))"

definition episodeMatcher :: "fileEntry list \<Rightarrow> jsnumber \<Rightarrow> jsnumber \<Rightarrow> nat option" where
  "episodeMatcher files season episode =
     (case firstIndexWhere (matchesEpisode season episode) files of
        Some k \<Rightarrow> Some k
      | None \<Rightarrow> firstIndexWhere isVideoFile files)"

text \<open>A file object that has only a name, or only a path.\<close>

definition named :: "string \<Rightarrow> fileEntry" where
  "named s = \<lparr>path = None, fileName = Some (js s)\<rparr>"

definition atPath :: "string \<Rightarrow> fileEntry" where
  "atPath s = \<lparr>path = Some (js s), fileName = None\<rparr>"

section \<open>The stream handler's findVideoFile\<close>

text \<open>
  The handler's own matcher. \<open>file.path.toLowerCase()\<close> throws \<open>TypeError\<close> on a file
  without a path, and \<open>episode.toString()\<close> on the episode \<open>null\<close>; the expressions are
  built anew for each video file, so the second throw needs a video file. The
  expressions are \<open>s0?${season}e0?${episode}\<close> and \<open>${season}x0?${episode}\<close> with the
  flag \<open>i\<close>, and \<open>[^\d]${season}${episode.toString().padStart(2, '0')}[^\d]\<close> without.
\<close>

definition handlerVideoExts :: "jsstring list" where
  "handlerVideoExts = map js [''.mkv'', ''.mp4'', ''.avi'']"

definition videoFilePatterns ::
  "jsnumber \<Rightarrow> jsnumber \<Rightarrow> jsError + (bool \<times> item list) list" where
  "videoFilePatterns season episode =
     (if episode = JNull then Inl TypeError
      else Inr
        [(True, lit (js ''s'') @ [Opt (Ch 0x30)] @ lit (toStr season) @ lit (js ''e'') @
                  [Opt (Ch 0x30)] @ lit (toStr episode)),
         (True, lit (toStr season) @ lit (js ''x'') @ [Opt (Ch 0x30)] @ lit (toStr episode)),
         (False, [One NonDigit] @ lit (toStr season) @ lit (padStart2 (toStr episode)) @
                  [One NonDigit])])"

fun findVideoMatching ::
  "jsnumber \<Rightarrow> jsnumber \<Rightarrow> nat \<Rightarrow> fileEntry list \<Rightarrow> jsError + nat option" where
  "findVideoMatching season episode i [] = Inr None"
| "findVideoMatching season episode i (file # files) =
     (case path file of
        None \<Rightarrow> Inl TypeError
      | Some p \<Rightarrow>
          if \<not> hasExt handlerVideoExts (toLowerCase p)
          then findVideoMatching season episode (i + 1) files
          else (case videoFilePatterns season episode of
                  Inl e \<Rightarrow> Inl e
                | Inr patterns \<Rightarrow>
                    if list_ex (\<lambda>(ic, pattern). regexTest ic pattern (toLowerCase p)) patterns
                    then Inr (Some (i + 1))
                    else findVideoMatching season episode (i + 1) files))"

fun firstVideoPath :: "nat \<Rightarrow> fileEntry list \<Rightarrow> jsError + nat option" where
  "firstVideoPath i [] = Inr None"
| "firstVideoPath i (file # files) =
     (case path file of
        None \<Rightarrow> Inl TypeError
      | Some p \<Rightarrow>
          if hasExt handlerVideoExts (toLowerCase p) then Inr (Some (i + 1))
          else firstVideoPath (i + 1) files)"

definition findVideoFile :: "fileEntry list \<Rightarrow> jsnumber \<Rightarrow> jsnumber \<Rightarrow> jsError + nat option" where
  "findVideoFile files season episode =
     (case findVideoMatching season episode 0 files of
        Inl e \<Rightarrow> Inl e
      | Inr (Some k) \<Rightarrow> Inr (Some k)
      | Inr None \<Rightarrow> firstVideoPath 0 files)"

section \<open>Array.prototype.sort\<close>

text \<open>
  \<open>array.sort(compare)\<close> is stable. For a comparator that is consistent on the elements
  (a total preorder), the result is the one stable ordering, which insertion computes:
  an element goes before the first element it does not compare greater than. Where a
  comparator is not consistent, ECMAScript leaves the order to the engine, and
  \<open>sortWith\<close> is one possible order.
\<close>

fun insertWith :: "('a \<Rightarrow> 'a \<Rightarrow> int) \<Rightarrow> 'a \<Rightarrow> 'a list \<Rightarrow> 'a list" where
  "insertWith compare x [] = [x]"
| "insertWith compare x (y # ys) =
     (if compare x y \<le> 0 then x # y # ys else y # insertWith compare x ys)"

definition sortWith :: "('a \<Rightarrow> 'a \<Rightarrow> int) \<Rightarrow> 'a list \<Rightarrow> 'a list" where
  "sortWith compare xs = foldr (insertWith compare) xs []"

section \<open>lib/utils.js: sortByPriority\<close>

text \<open>\<open>t.seeders || 0\<close>: an absent count is 0.\<close>

definition seedersOr0 :: "torrent \<Rightarrow> int" where
  "seedersOr0 t = (case seeders t of None \<Rightarrow> 0 | Some n \<Rightarrow> n)"

text \<open>
  The table \<open>qualityPriority\<close>, in the source's order, and \<open>qualityPriority[t.quality] || 0\<close>.
  The table is an object literal: a label that is one of its own keys yields the number
  beside it; a label that names a member the literal inherits from \<open>Object.prototype\<close>
  yields that function or object, which is truthy, so \<open>|| 0\<close> keeps it and the subtraction
  makes \<open>NaN\<close> of it; every other label, and a missing one, yields \<open>undefined\<close> and so 0.
\<close>

definition qualityPriority :: "(jsstring \<times> int) list" where
  "qualityPriority =
     [(js ''4K'', 100), (js ''REMUX'', 95), (js ''2160p'', 90), (js ''1080p'', 80),
      (js ''BluRay'', 70), (js ''720p'', 60), (js ''WEB-DL'', 65), (js ''WEBRip'', 60),
      (js ''HDTV'', 50), (js ''480p'', 40)]"

definition inheritedKeys :: "jsstring list" where
  "inheritedKeys = map js
     [''constructor'', ''__defineGetter__'', ''__defineSetter__'', ''hasOwnProperty'',
      ''__lookupGetter__'', ''__lookupSetter__'', ''isPrototypeOf'', ''propertyIsEnumerable'',
      ''toString'', ''valueOf'', ''__proto__'', ''toLocaleString'']"

definition priorityOf :: "torrent \<Rightarrow> jsnumber" where
  "priorityOf t =
     (case quality t of
        None \<Rightarrow> JInt 0
      | Some q \<Rightarrow>
          (case map_of qualityPriority q of
             Some p \<Rightarrow> JInt p
           | None \<Rightarrow> if q \<in> set inheritedKeys then JNaN else JInt 0))"

text \<open>
  Subtraction of two values as numbers (\<open>null\<close> counts as 0, as \<open>ToNumber\<close> has it), and
  the comparator. Its result is a number or \<open>NaN\<close>.
\<close>

fun numberOf :: "jsnumber \<Rightarrow> int option" where
  "numberOf (JInt i) = Some i"
| "numberOf JNull = Some 0"
| "numberOf JNaN = None"

definition subtract :: "jsnumber \<Rightarrow> jsnumber \<Rightarrow> jsnumber" where
  "subtract x y =
     (case numberOf x of
        None \<Rightarrow> JNaN
      | Some a \<Rightarrow> (case numberOf y of None \<Rightarrow> JNaN | Some b \<Rightarrow> JInt (a - b)))"

definition priorityCompare :: "torrent \<Rightarrow> torrent \<Rightarrow> jsnumber" where
  "priorityCompare a b =
     (let seedDiff = seedersOr0 b - seedersOr0 a
      in if \<bar>seedDiff\<bar> > 10 then JInt seedDiff else subtract (priorityOf b) (priorityOf a))"

text \<open>\<open>sort\<close> reads a comparator's result as a number, and \<open>NaN\<close> as 0.\<close>

definition sortValue :: "jsnumber \<Rightarrow> int" where
  "sortValue v = (case numberOf v of None \<Rightarrow> 0 | Some i \<Rightarrow> i)"

definition sortByPriority :: "torrent list \<Rightarrow> torrent list" where
  "sortByPriority torrents = sortWith (\<lambda>a b. sortValue (priorityCompare a b)) torrents"

text \<open>
  The claim's rule for two candidates, with the priority of the table and 0 for any
  other label: \<open>a\<close> is to be ordered before \<open>b\<close> when it has more than 10 seeders more, or
  when the counts differ by at most 10 and its quality priority is higher. A ranked
  list respects the rule when no candidate stands behind one that it is to be ordered
  before.
\<close>

definition tablePriority :: "torrent \<Rightarrow> int" where
  "tablePriority t =
     (case quality t of
        None \<Rightarrow> 0
      | Some q \<Rightarrow> (case map_of qualityPriority q of None \<Rightarrow> 0 | Some p \<Rightarrow> p))"

definition orderedFirst :: "torrent \<Rightarrow> torrent \<Rightarrow> bool" where
  "orderedFirst a b =
     (if \<bar>seedersOr0 a - seedersOr0 b\<bar> > 10 then seedersOr0 a > seedersOr0 b
      else tablePriority a > tablePriority b)"

fun respectsRanking :: "torrent list \<Rightarrow> bool" where
  "respectsRanking [] = True"
| "respectsRanking (x # xs) = (list_all (\<lambda>y. \<not> orderedFirst y x) xs \<and> respectsRanking xs)"

text \<open>
  A candidate whose quality label names no inherited member (as every label that the
  searchers' \<open>extractQuality\<close> produces), and a list on which the rule is consistent:
  whenever \<open>a\<close> may stand before \<open>b\<close> and \<open>b\<close> before \<open>c\<close>, \<open>a\<close> may stand before \<open>c\<close>.
\<close>

definition plainLabel :: "torrent \<Rightarrow> bool" where
  "plainLabel t = (case quality t of None \<Rightarrow> True | Some q \<Rightarrow> q \<notin> set inheritedKeys)"

definition ruleConsistent :: "torrent list \<Rightarrow> bool" where
  "ruleConsistent xs =
     (\<forall>a \<in> set xs. \<forall>b \<in> set xs. \<forall>c \<in> set xs.
        orderedFirst c a \<longrightarrow> orderedFirst b a \<or> orderedFirst c b)"


text \<open>A candidate with a seeder count and a quality label, for examples.\<close>

definition candidate :: "string \<Rightarrow> int \<Rightarrow> string \<Rightarrow> torrent" where
  "candidate h n q =
     \<lparr>title = js h, infoHash = Some (js h), sizeText = None, seeders = Some n,
      quality = Some (js q), source = js ''Rutor''\<rparr>"

section \<open>lib/torrentSearcher.js: search\<close>

text \<open>
  The outcome of a \<open>try\<close> block that awaits a page and parses it: it throws (a network
  error, a timeout, a parse error) or returns its rows. Each of \<open>searchRutor\<close>,
  \<open>searchRutracker\<close> and \<open>searchKinozal\<close> catches the throw and returns \<open>[]\<close>.
\<close>

datatype 'a attempt = Threw | Returned 'a

definition searchTracker :: "torrent list attempt \<Rightarrow> torrent list" where
  "searchTracker body = (case body of Threw \<Rightarrow> [] | Returned results \<Rightarrow> results)"

text \<open>A promise as \<open>Promise.allSettled\<close> reports it.\<close>

datatype 'a settled = Fulfilled 'a | Rejected

text \<open>The \<open>enabled\<close> flags of \<open>this.trackers\<close>; the constructor sets all three.\<close>

record trackers =
  rutor :: bool
  rutracker :: bool
  kinozal :: bool

text \<open>
  \<open>allResults.forEach(result => { if (result.status === 'fulfilled' && result.value)
  results.push(...result.value) })\<close>, with \<open>results\<close> threaded through.
\<close>

fun collect :: "torrent list \<Rightarrow> torrent list settled list \<Rightarrow> torrent list" where
  "collect results [] = results"
| "collect results (Fulfilled v # rest) = collect (results @ v) rest"
| "collect results (Rejected # rest) = collect results rest"

definition seedersCompare :: "torrent \<Rightarrow> torrent \<Rightarrow> int" where
  "seedersCompare a b = seedersOr0 b - seedersOr0 a"

text \<open>
  \<open>search\<close>, given what each enabled tracker's promise settles to. The search query only
  decides what the trackers are asked.
\<close>

definition search ::
  "trackers \<Rightarrow> torrent list settled \<Rightarrow> torrent list settled \<Rightarrow> torrent list settled \<Rightarrow>
   torrent list" where
  "search enabled fromRutor fromRutracker fromKinozal =
     (let searches =
            (if rutor enabled then [fromRutor] else []) @
            (if rutracker enabled then [fromRutracker] else []) @
            (if kinozal enabled then [fromKinozal] else [])
      in sortWith seedersCompare (collect [] searches))"

text \<open>
  The claim's reading: the outputs of the enabled adapters that succeeded, one after
  the other; an adapter that threw, timed out or was rejected contributes nothing.
\<close>

fun outputOf :: "torrent list settled \<Rightarrow> torrent list" where
  "outputOf (Fulfilled v) = v"
| "outputOf Rejected = []"

definition successfulOutputs ::
  "trackers \<Rightarrow> torrent list settled \<Rightarrow> torrent list settled \<Rightarrow> torrent list settled \<Rightarrow>
   torrent list" where
  "successfulOutputs enabled fromRutor fromRutracker fromKinozal =
     (if rutor enabled then outputOf fromRutor else []) @
     (if rutracker enabled then outputOf fromRutracker else []) @
     (if kinozal enabled then outputOf fromKinozal else [])"

definition bySeedersDescending :: "torrent list \<Rightarrow> bool" where
  "bySeedersDescending ts = sorted_wrt (\<lambda>a b. seedersOr0 a \<ge> seedersOr0 b) ts"

section \<open>lib/realdebrid.js: checkAvailability\<close>

text \<open>
  What the request for one hash yields: it throws (network error, timeout, malformed
  answer), or it returns \<open>response.data[infoHash]\<close>, where \<open>None\<close> stands for no data, no
  entry for the hash or no \<open>rd\<close> field, and \<open>Some rd\<close> for the array \<open>rd\<close> of variants,
  each the files of the variant.
\<close>

record rawFile =
  filename :: "jsstring option"
  filesize :: "nat option"

type_synonym rdVariants = "rawFile list list"

text \<open>
  The object \<open>checkAvailability\<close> returns: \<open>{ available: false }\<close> has no files. Of a file
  \<open>{ id, path, size }\<close> the handler reads the path only.
\<close>

record rdInfo =
  available :: bool
  files :: "fileEntry list option"

definition checkAvailability :: "rdVariants option attempt \<Rightarrow> rdInfo" where
  "checkAvailability response =
     (case response of
        Threw \<Rightarrow> \<lparr>available = False, files = None\<rparr>
      | Returned None \<Rightarrow> \<lparr>available = False, files = None\<rparr>
      | Returned (Some []) \<Rightarrow> \<lparr>available = False, files = None\<rparr>
      | Returned (Some (variant # rest)) \<Rightarrow>
          \<lparr>available = True,
           files = Some (map (\<lambda>file. \<lparr>path = filename file, fileName = None\<rparr>) variant)\<rparr>)"

section \<open>The stream handler\<close>

subsection \<open>Streams and the result cache\<close>

text \<open>
  A stream object. Its fields \<open>name\<close>, \<open>title\<close> and \<open>infoHash\<close> are \<open>streamName\<close>,
  \<open>streamTitle\<close> and \<open>streamInfoHash\<close> here; \<open>behaviorHints\<close> is flattened.
\<close>

record stream =
  streamName :: jsstring
  streamTitle :: jsstring
  streamInfoHash :: "jsstring option"
  fileIdx :: "nat option"
  bingeGroup :: jsstring
  notWebReady :: bool
  sources :: "jsstring list"
  description :: jsstring

text \<open>
  An entry of the answer's \<open>streams\<close>: a stream, or one of the two notices with
  \<open>notFound: true\<close>, the one that asks for the API key and the one that reports a caught
  error (its description is the error's message).
\<close>

datatype entry = Stream stream | ConfigurationRequired | ErrorNotice jsError

record cacheItem =
  cachedData :: "stream list"
  timestamp :: int

type_synonym cache = "jsstring \<rightharpoonup> cacheItem"

definition CACHE_TTL :: int where
  "CACHE_TTL = 3600000"

text \<open>
  \<open>getCache\<close> and \<open>setCache\<close> on the module's \<open>Map\<close>, with the reading of \<open>Date.now()\<close>
  passed in; \<open>getCache\<close> also returns the map, from which it deletes an expired item.
\<close>

definition getCache :: "cache \<Rightarrow> int \<Rightarrow> jsstring \<Rightarrow> stream list option \<times> cache" where
  "getCache cache now key =
     (case cache key of
        None \<Rightarrow> (None, cache)
      | Some item \<Rightarrow>
          if now - timestamp item > CACHE_TTL then (None, cache(key := None))
          else (Some (cachedData item), cache))"

definition setCache :: "cache \<Rightarrow> int \<Rightarrow> jsstring \<Rightarrow> stream list \<Rightarrow> cache" where
  "setCache cache now key streams = cache(key \<mapsto> \<lparr>cachedData = streams, timestamp = now\<rparr>)"

text \<open>\<open>`streams:${id}:${config.rdApiKey.substring(0, 8)}`\<close>.\<close>

definition cacheKey :: "jsstring \<Rightarrow> jsstring \<Rightarrow> jsstring" where
  "cacheKey mediaId rdApiKey = js ''streams:'' @ mediaId @ js '':'' @ take 8 rdApiKey"

subsection \<open>Parsing the media id\<close>

text \<open>\<open>s.split(':')\<close> and \<open>parts[i]\<close>, which is \<open>undefined\<close> beyond the array.\<close>

fun split :: "nat \<Rightarrow> jsstring \<Rightarrow> jsstring list" where
  "split sep [] = [[]]"
| "split sep (c # cs) =
     (if c = sep then [] # split sep cs
      else (c # hd (split sep cs)) # tl (split sep cs))"

definition at :: "'a list \<Rightarrow> nat \<Rightarrow> 'a option" where
  "at xs i = (if i < length xs then Some (xs ! i) else None)"

text \<open>
  \<open>parseInt(s)\<close> without a radix: leading white space is skipped, then a sign, then
  \<open>0x\<close> or \<open>0X\<close> switches to radix 16, then the longest run of digits is read; no digit
  gives \<open>NaN\<close>, and so does \<open>undefined\<close>. (The rounding of integers beyond \<open>2^53\<close> is not
  modelled.)
\<close>

definition digitValue :: "nat \<Rightarrow> nat" where
  "digitValue c = (if isDigit c then c - 0x30 else if 0x61 \<le> c then c - 0x57 else c - 0x37)"

definition isRadixDigit :: "nat \<Rightarrow> nat \<Rightarrow> bool" where
  "isRadixDigit radix c = (if radix = 16 then isHexDigit c else isDigit c)"

definition digitsValue :: "nat \<Rightarrow> jsstring \<Rightarrow> nat" where
  "digitsValue radix ds = foldl (\<lambda>v c. v * radix + digitValue c) 0 ds"

definition parseInt :: "jsstring option \<Rightarrow> jsnumber" where
  "parseInt v =
     (case v of
        None \<Rightarrow> JNaN
      | Some s \<Rightarrow>
          (let trimmed = dropWhile isWhiteSpace s;
               negative = startsWith trimmed [0x2D];
               unsigned =
                 (if startsWith trimmed [0x2D] \<or> startsWith trimmed [0x2B] then tl trimmed
                  else trimmed);
               hex = (startsWith unsigned (js ''0x'') \<or> startsWith unsigned (js ''0X''));
               radix = (if hex then 16 else 10);
               digits = takeWhile (isRadixDigit radix) (if hex then drop 2 unsigned else unsigned)
           in if digits = [] then JNaN
              else if negative then JInt (- int (digitsValue radix digits))
              else JInt (int (digitsValue radix digits))))"

text \<open>A number as a condition: \<open>null\<close>, \<open>NaN\<close> and 0 are falsy.\<close>

fun truthyNumber :: "jsnumber \<Rightarrow> bool" where
  "truthyNumber (JInt i) = (i \<noteq> 0)"
| "truthyNumber JNaN = False"
| "truthyNumber JNull = False"

subsection \<open>The search query\<close>

text \<open>
  The query of \<open>TorrentSearcher.search\<close>: the title, \<open>' ' + year\<close> when there is a year,
  and for a series with a season \<open>' S' + season\<close> padded to two digits, then
  \<open>'E' + episode\<close> padded when there is an episode.
\<close>

definition searchQuery ::
  "jsstring \<Rightarrow> jsstring \<Rightarrow> jsstring \<Rightarrow> jsnumber \<Rightarrow> jsnumber \<Rightarrow> jsstring" where
  "searchQuery mediaType title' year season episode =
     title' @ (if year \<noteq> [] then js '' '' @ year else []) @
     (if mediaType = js ''series'' \<and> truthyNumber season
      then js '' S'' @ padStart2 (toStr season) @
           (if truthyNumber episode then js ''E'' @ padStart2 (toStr episode) else [])
      else [])"

subsection \<open>The world outside\<close>

text \<open>
  What the handler reaches outside the process, as functions of what it sends:
  \<open>getMetadata\<close> (which catches its own errors and then returns an empty title and
  year), \<open>JackettSearcher\<close> (\<open>enabled\<close> when its URL and key are configured; its \<open>search\<close>
  catches its own errors), the three tracker pages fetched for a query, and the
  Real-Debrid request for a hash under an API key.
\<close>

record metadata =
  metaTitle :: jsstring
  metaYear :: jsstring

record world =
  getMetadata :: "jsstring \<Rightarrow> jsstring \<Rightarrow> metadata"
  jackettEnabled :: bool
  jackettSearch :: "jsstring \<Rightarrow> jsstring \<Rightarrow> jsstring \<Rightarrow> jsnumber \<Rightarrow> jsnumber \<Rightarrow> torrent list"
  rutorPage :: "jsstring \<Rightarrow> torrent list attempt"
  rutrackerPage :: "jsstring \<Rightarrow> torrent list attempt"
  kinozalPage :: "jsstring \<Rightarrow> torrent list attempt"
  instantAvailability :: "jsstring \<Rightarrow> jsstring option \<Rightarrow> rdVariants option attempt"

text \<open>The calls that leave the process, in the order in which they are started.\<close>

datatype call =
  MetadataCall | JackettCall | RutorCall | RutrackerCall | KinozalCall
  | AvailabilityCall "jsstring option"

subsection \<open>The availability loop\<close>

text \<open>
  The stream built for an available torrent. \<open>${torrent.infoHash}\<close> prints a missing
  hash as \<open>undefined\<close>; the icons are written as their UTF-16 code units.
\<close>

definition hashText :: "torrent \<Rightarrow> jsstring" where
  "hashText t = (case infoHash t of None \<Rightarrow> js ''undefined'' | Some h \<Rightarrow> h)"

definition seedersText :: "torrent \<Rightarrow> jsstring option" where
  "seedersText t =
     (case seeders t of
        None \<Rightarrow> None
      | Some n \<Rightarrow> if n = 0 then None else Some (toStr (JInt n)))"

fun joinWith :: "jsstring \<Rightarrow> jsstring list \<Rightarrow> jsstring" where
  "joinWith sep [] = []"
| "joinWith sep [x] = x"
| "joinWith sep (x # y # ys) = x @ sep @ joinWith sep (y # ys)"

definition buildStream :: "torrent \<Rightarrow> nat option \<Rightarrow> stream" where
  "buildStream t fileIndex =
     \<lparr>streamName = js ''RD '' @ [0xD83C, 0xDDF7, 0xD83C, 0xDDFA] @ js '' '' @ source t,
      streamTitle = title t,
      streamInfoHash = infoHash t,
      fileIdx = fileIndex,
      bingeGroup = js ''realdebrid-'' @ hashText t,
      notWebReady = True,
      sources =
        (case seedersText t of
           None \<Rightarrow> []
         | Some n \<Rightarrow> [[0xD83D, 0xDC65] @ js '' '' @ n]),
      description =
        joinWith (js '' | '')
          ((if truthy (sizeText t) then [[0xD83D, 0xDCE6] @ js '' '' @ the (sizeText t)] else []) @
           (if truthy (quality t) then [[0xD83C, 0xDFAC] @ js '' '' @ the (quality t)] else []) @
           (case seedersText t of
              None \<Rightarrow> []
            | Some n \<Rightarrow>
                [[0xD83D, 0xDC65] @ js '' '' @ [0x421, 0x438, 0x434, 0x44B] @ js '': '' @ n]))\<rparr>"

text \<open>
  The body of the loop's \<open>try\<close> for one torrent: what it pushes, if anything, or the
  error that the \<open>catch\<close> logs. \<open>rd\<close> is the Real-Debrid request under the requester's key.
\<close>

definition resolveTorrent ::
  "(jsstring option \<Rightarrow> rdVariants option attempt) \<Rightarrow> jsstring \<Rightarrow> jsnumber \<Rightarrow> jsnumber \<Rightarrow>
   torrent \<Rightarrow> jsError + stream option" where
  "resolveTorrent rd mediaType season episode t =
     (let rdInfo = checkAvailability (rd (infoHash t))
      in if available rdInfo then
           (case (if mediaType = js ''series'' \<and> files rdInfo \<noteq> None
                  then findVideoFile (the (files rdInfo)) season episode
                  else Inr None) of
              Inl e \<Rightarrow> Inl e
            | Inr fileIndex \<Rightarrow> Inr (Some (buildStream t fileIndex)))
         else Inr None)"

text \<open>\<open>for (const torrent of ...)\<close>, with the array \<open>streams\<close> threaded through.\<close>

fun availabilityLoop ::
  "(jsstring option \<Rightarrow> rdVariants option attempt) \<Rightarrow> jsstring \<Rightarrow> jsnumber \<Rightarrow> jsnumber \<Rightarrow>
   stream list \<Rightarrow> torrent list \<Rightarrow> stream list" where
  "availabilityLoop rd mediaType season episode streams [] = streams"
| "availabilityLoop rd mediaType season episode streams (t # ts) =
     (case resolveTorrent rd mediaType season episode t of
        Inl e \<Rightarrow> availabilityLoop rd mediaType season episode streams ts
      | Inr None \<Rightarrow> availabilityLoop rd mediaType season episode streams ts
      | Inr (Some s) \<Rightarrow> availabilityLoop rd mediaType season episode (streams @ [s]) ts)"

text \<open>The Availability Resolver: the loop over \<open>torrents.slice(0, 15)\<close>.\<close>

definition resolveAvailability ::
  "(jsstring option \<Rightarrow> rdVariants option attempt) \<Rightarrow> jsstring \<Rightarrow> jsnumber \<Rightarrow> jsnumber \<Rightarrow>
   torrent list \<Rightarrow> stream list" where
  "resolveAvailability rd mediaType season episode torrents =
     availabilityLoop rd mediaType season episode [] (take 15 torrents)"

text \<open>Whether the provider reports a torrent available; an error of the call is a no.\<close>

definition isAvailable :: "(jsstring option \<Rightarrow> rdVariants option attempt) \<Rightarrow> torrent \<Rightarrow> bool" where
  "isAvailable rd t = available (checkAvailability (rd (infoHash t)))"

subsection \<open>The handler\<close>

text \<open>The handler's argument \<open>{ type, id, config }\<close>, and its \<open>config.rdApiKey\<close>.\<close>

record config =
  rdApiKey :: "jsstring option"

record request =
  mediaType :: jsstring
  mediaId :: jsstring
  userConfig :: "config option"

text \<open>
  The handler's search and availability check, from \<open>getMetadata\<close> to the end of the
  loop: the streams found and the calls made.
\<close>

definition findStreams ::
  "world \<Rightarrow> jsstring \<Rightarrow> jsstring \<Rightarrow> jsnumber \<Rightarrow> jsnumber \<Rightarrow> jsstring \<Rightarrow>
   stream list \<times> call list" where
  "findStreams w ty imdbId season episode key =
     (let meta = getMetadata w imdbId ty;
          fromJackett =
            (if jackettEnabled w
             then jackettSearch w imdbId (metaTitle meta) (metaYear meta) season episode
             else []);
          query = searchQuery ty (metaTitle meta) (metaYear meta) season episode;
          torrents =
            (if fromJackett = []
             then search \<lparr>rutor = True, rutracker = True, kinozal = True\<rparr>
                    (Fulfilled (searchTracker (rutorPage w query)))
                    (Fulfilled (searchTracker (rutrackerPage w query)))
                    (Fulfilled (searchTracker (kinozalPage w query)))
             else fromJackett)
      in (resolveAvailability (instantAvailability w key) ty season episode torrents,
          [MetadataCall] @ (if jackettEnabled w then [JackettCall] else []) @
          (if fromJackett = [] then [RutorCall, RutrackerCall, KinozalCall] else []) @
          map (\<lambda>t. AvailabilityCall (infoHash t)) (take 15 torrents)))"

text \<open>
  The handler from the parsing of the id to its \<open>return { streams }\<close>, for the API key
  \<open>key\<close>. The result is the answer's entries, the calls made and the cache afterwards.
  \<open>now\<close> is the clock when the cache is read and \<open>later\<close> when it is written. A cached
  array is truthy, so a hit returns at once.
\<close>

definition resolve ::
  "world \<Rightarrow> int \<Rightarrow> int \<Rightarrow> cache \<Rightarrow> jsstring \<Rightarrow> jsstring \<Rightarrow> jsstring \<Rightarrow>
   entry list \<times> call list \<times> cache" where
  "resolve w now later cache ty ident key =
     (let parts = split 0x3A ident;
          series = (ty = js ''series'' \<and> strIncludes ident (js '':''));
          season = (if series then parseInt (at parts 1) else JNull);
          episode = (if series then parseInt (at parts 2) else JNull);
          lookup = getCache cache now (cacheKey ident key)
      in case fst lookup of
           Some streams \<Rightarrow> (map Stream streams, [], snd lookup)
         | None \<Rightarrow>
             (let found = findStreams w ty (hd parts) season episode key
              in (map Stream (fst found), snd found,
                  if fst found \<noteq> []
                  then setCache (snd lookup) later (cacheKey ident key) (fst found)
                  else snd lookup)))"

text \<open>
  The handler with the credential check (\<open>!config || !config.rdApiKey\<close>, which also
  refuses the empty key).
\<close>

definition hasCredential :: "config option \<Rightarrow> bool" where
  "hasCredential c = (case c of None \<Rightarrow> False | Some cfg \<Rightarrow> truthy (rdApiKey cfg))"

definition streamHandler ::
  "world \<Rightarrow> int \<Rightarrow> int \<Rightarrow> cache \<Rightarrow> request \<Rightarrow> entry list \<times> call list \<times> cache" where
  "streamHandler w now later cache req =
     (if \<not> hasCredential (userConfig req) then ([ConfigurationRequired], [], cache)
      else resolve w now later cache (mediaType req) (mediaId req)
             (the (rdApiKey (the (userConfig req)))))"

text \<open>
  The handler of the other entry file: it declares a constant \<open>rdApiKey\<close> that it never
  reads, has no credential check, and evaluates \<open>config.rdApiKey.substring(0, 8)\<close>, which
  throws \<open>TypeError\<close> without a configuration or a key; the handler's \<open>catch\<close> turns the
  throw into the error notice.
\<close>

definition streamHandlerUnchecked ::
  "world \<Rightarrow> int \<Rightarrow> int \<Rightarrow> cache \<Rightarrow> request \<Rightarrow> entry list \<times> call list \<times> cache" where
  "streamHandlerUnchecked w now later cache req =
     (case userConfig req of
        None \<Rightarrow> ([ErrorNotice TypeError], [], cache)
      | Some cfg \<Rightarrow>
          (case rdApiKey cfg of
             None \<Rightarrow> ([ErrorNotice TypeError], [], cache)
           | Some key \<Rightarrow> resolve w now later cache (mediaType req) (mediaId req) key))"

subsection \<open>Two worlds and two requests for examples\<close>

text \<open>
  In \<open>exampleWorld\<close> Rutor finds one torrent, which Real-Debrid has cached as a single
  file; in \<open>silentWorld\<close> every call outside fails. The two requests ask for the same
  movie with API keys of two accounts that agree in their first 8 characters.
\<close>

definition exampleTorrent :: torrent where
  "exampleTorrent = candidate ''AAAAAAAAAAAAAAAAAAAAAAAAAAAAAAAAAAAAAAAA'' 5 ''1080p''"

definition exampleWorld :: world where
  "exampleWorld =
     \<lparr>getMetadata = (\<lambda>imdbId ty. \<lparr>metaTitle = js ''Movie Name'', metaYear = js ''2020''\<rparr>),
      jackettEnabled = False,
      jackettSearch = (\<lambda>imdbId t y season episode. []),
      rutorPage = (\<lambda>query. Returned [exampleTorrent]),
      rutrackerPage = (\<lambda>query. Threw),
      kinozalPage = (\<lambda>query. Returned []),
      instantAvailability =
        (\<lambda>key h. Returned (Some [[\<lparr>filename = Some (js ''Movie.mkv''), filesize = Some 1\<rparr>]]))\<rparr>"

definition silentWorld :: world where
  "silentWorld =
     \<lparr>getMetadata = (\<lambda>imdbId ty. \<lparr>metaTitle = [], metaYear = []\<rparr>),
      jackettEnabled = False,
      jackettSearch = (\<lambda>imdbId t y season episode. []),
      rutorPage = (\<lambda>query. Threw),
      rutrackerPage = (\<lambda>query. Threw),
      kinozalPage = (\<lambda>query. Threw),
      instantAvailability = (\<lambda>key h. Threw)\<rparr>"

definition requestWith :: "config option \<Rightarrow> request" where
  "requestWith c = \<lparr>mediaType = js ''movie'', mediaId = js ''tt0111161'', userConfig = c\<rparr>"

definition firstAccount :: request where
  "firstAccount = requestWith (Some \<lparr>rdApiKey = Some (js ''ABCDEFGH-ACCOUNT-1'')\<rparr>)"

definition secondAccount :: request where
  "secondAccount = requestWith (Some \<lparr>rdApiKey = Some (js ''ABCDEFGH-ACCOUNT-2'')\<rparr>)"

text \<open>
  A provider that fails on the hash \<open>B\<close> and reports every other hash cached, and three
  candidates.
\<close>

definition exampleProvider :: "jsstring option \<Rightarrow> rdVariants option attempt" where
  "exampleProvider h =
     (if h = Some (js ''B'') then Threw
      else Returned (Some [[\<lparr>filename = Some (js ''Movie.mkv''), filesize = Some 1\<rparr>]]))"

chapter \<open>Properties\<close>

section \<open>Deduplication\<close>

lemma removeDuplicatesFrom_keys:
  "set (List.map_filter hashKey (removeDuplicatesFrom seen ts)) \<inter> seen = {} \<and>
   distinct (List.map_filter hashKey (removeDuplicatesFrom seen ts))"
proof (induction ts arbitrary: seen)
  case Nil
  show ?case by simp
next
  case (Cons t ts)
  show ?case
  proof (cases "hashKey t")
    case None
    with Cons [of seen] show ?thesis
      by (auto simp: hashKey_def split: option.splits if_splits)
  next
    case (Some H)
    with Cons [of seen] Cons [of "insert H seen"] show ?thesis
      by (auto simp: hashKey_def split: option.splits if_splits)
  qed
qed

lemma removeDuplicatesFrom_find:
  "H \<notin> seen \<Longrightarrow>
   find (\<lambda>u. hashKey u = Some H) (removeDuplicatesFrom seen ts) =
   find (\<lambda>u. hashKey u = Some H) ts"
  by (induction ts arbitrary: seen) (auto simp: hashKey_def split: option.splits)

lemma removeDuplicatesFrom_no_key:
  "filter (\<lambda>u. hashKey u = None) (removeDuplicatesFrom seen ts) =
   filter (\<lambda>u. hashKey u = None) ts"
  by (induction ts arbitrary: seen) (auto simp: hashKey_def split: option.splits)

lemma removeDuplicatesFrom_subseq: "subseq (removeDuplicatesFrom seen ts) ts"
  by (induction ts arbitrary: seen) (auto split: option.splits)

lemma removeDuplicatesFrom_hashed:
  "list_all (\<lambda>t. hashKey t \<noteq> None) ts \<Longrightarrow>
   map (\<lambda>t. map_option toUpperCase (infoHash t)) (removeDuplicatesFrom seen ts) =
   map Some (List.map_filter hashKey (removeDuplicatesFrom seen ts))"
  by (induction ts arbitrary: seen) (auto simp: hashKey_def split: option.splits if_splits)

lemma noEqualHashes_hashed:
  assumes "list_all (\<lambda>t. hashKey t \<noteq> None) ts"
  shows "noEqualHashes (removeDuplicates ts)"
  using removeDuplicatesFrom_hashed [OF assms, of "{}"] removeDuplicatesFrom_keys [of "{}" ts]
  by (simp add: noEqualHashes_def removeDuplicates_def distinct_map)

text \<open>
  C4. For every list of candidates, each carrying an identity hash as the data model
  has it, the deduplicated output holds no two entries whose hashes are equal after
  upper-casing. For any list: among the entries that carry a non-empty hash the output
  holds no two with the same upper-cased hash, and for every upper-cased hash \<open>H\<close> the
  first entry of the output with \<open>H\<close> is the first entry of the input with \<open>H\<close>,
  whatever its source; the entries without a hash are all kept; and the output is the
  input with entries dropped, in the input's order.
\<close>

theorem removeDuplicates_first_seen_wins:
  "(list_all (\<lambda>t. hashKey t \<noteq> None) ts \<longrightarrow> noEqualHashes (removeDuplicates ts)) \<and>
   distinct (List.map_filter hashKey (removeDuplicates ts)) \<and>
   (\<forall>H. find (\<lambda>u. hashKey u = Some H) (removeDuplicates ts) =
        find (\<lambda>u. hashKey u = Some H) ts) \<and>
   filter (\<lambda>u. hashKey u = None) (removeDuplicates ts) = filter (\<lambda>u. hashKey u = None) ts \<and>
   subseq (removeDuplicates ts) ts"
proof -
  have "distinct (List.map_filter hashKey (removeDuplicates ts)) \<and>
     (\<forall>H. find (\<lambda>u. hashKey u = Some H) (removeDuplicates ts) =
          find (\<lambda>u. hashKey u = Some H) ts) \<and>
     filter (\<lambda>u. hashKey u = None) (removeDuplicates ts) = filter (\<lambda>u. hashKey u = None) ts \<and>
     subseq (removeDuplicates ts) ts"
    unfolding removeDuplicates_def
    using removeDuplicatesFrom_keys [of "{}" ts] removeDuplicatesFrom_no_key [of "{}" ts]
      removeDuplicatesFrom_subseq [of "{}" ts]
    by (simp add: removeDuplicatesFrom_find)
  with noEqualHashes_hashed [of ts] show ?thesis by blast
qed

theorem removeDuplicates_first_seen_wins_witness:
  "removeDuplicates
     [candidate ''abc'' 1 ''4K'', (candidate ''ABC'' 1 ''4K'')\<lparr>source := js ''Kinozal''\<rparr>,
      candidate ''def'' 1 ''4K''] =
     [candidate ''abc'' 1 ''4K'', candidate ''def'' 1 ''4K''] \<and>
   noEqualHashes (removeDuplicates
     [candidate ''abc'' 1 ''4K'', (candidate ''ABC'' 1 ''4K'')\<lparr>source := js ''Kinozal''\<rparr>,
      candidate ''def'' 1 ''4K''])"
proof -
  let ?ts = "[candidate ''abc'' 1 ''4K'', (candidate ''ABC'' 1 ''4K'')\<lparr>source := js ''Kinozal''\<rparr>,
      candidate ''def'' 1 ''4K'']"
  have hashed: "list_all (\<lambda>t. hashKey t \<noteq> None) ?ts"
    by (simp add: hashKey_def candidate_def js_def)
  have "removeDuplicates ?ts = [candidate ''abc'' 1 ''4K'', candidate ''def'' 1 ''4K'']"
    by (simp add: removeDuplicates_def candidate_def js_def toUpperCase_def toUpperUnit_def)
  moreover have "noEqualHashes (removeDuplicates ?ts)"
    using removeDuplicates_first_seen_wins [of ?ts] hashed by blast
  ultimately show ?thesis by blast
qed

text \<open>
  The guard \<open>if (!torrent.infoHash) return true\<close> keeps every entry without a hash: two
  entries whose hash is the empty string are both kept.
\<close>

lemma removeDuplicates_keeps_hashless:
  "removeDuplicates
     [\<lparr>title = js ''A'', infoHash = Some [], sizeText = None, seeders = Some 1,
        quality = None, source = js ''Rutor''\<rparr>,
      \<lparr>title = js ''A'', infoHash = Some [], sizeText = None, seeders = Some 1,
        quality = None, source = js ''Kinozal''\<rparr>] =
     [\<lparr>title = js ''A'', infoHash = Some [], sizeText = None, seeders = Some 1,
        quality = None, source = js ''Rutor''\<rparr>,
      \<lparr>title = js ''A'', infoHash = Some [], sizeText = None, seeders = Some 1,
        quality = None, source = js ''Kinozal''\<rparr>]"
  by (simp add: removeDuplicates_def)

section \<open>Quality extraction\<close>

text \<open>
  C6. \<open>parseQuality\<close> is a function of the title alone, defined on every string: it has
  no failing branch and reads nothing but its argument. Each field is \<open>null\<close> (the
  descriptor's "unknown") exactly when the lower-cased title contains none of the
  field's keywords, and \<open>hdr\<close> is \<open>false\<close> exactly when it contains no HDR keyword;
  \<open>Movie.Name.2020\<close> yields a descriptor with every field unknown and \<open>hdr\<close> false.
\<close>

theorem parseQuality_defaults:
  "(resolution (parseQuality t) = None) = noKeyword resolutionKeywords t \<and>
   (sourceType (parseQuality t) = None) = noKeyword sourceKeywords t \<and>
   (codec (parseQuality t) = None) = noKeyword codecKeywords t \<and>
   (audio (parseQuality t) = None) = noKeyword audioKeywords t \<and>
   hdr (parseQuality t) = (\<not> noKeyword hdrKeywords t) \<and>
   parseQuality (js ''Movie.Name.2020'') =
     \<lparr>resolution = None, sourceType = None, codec = None, audio = None, hdr = False\<rparr>"
proof -
  have "(resolution (parseQuality t) = None) = noKeyword resolutionKeywords t"
    by (simp add: parseQuality_def noKeyword_def resolutionKeywords_def Let_def)
  moreover have "(sourceType (parseQuality t) = None) = noKeyword sourceKeywords t"
    by (simp add: parseQuality_def noKeyword_def sourceKeywords_def Let_def)
  moreover have "(codec (parseQuality t) = None) = noKeyword codecKeywords t"
    by (simp add: parseQuality_def noKeyword_def codecKeywords_def Let_def)
  moreover have "(audio (parseQuality t) = None) = noKeyword audioKeywords t"
    by (simp add: parseQuality_def noKeyword_def audioKeywords_def Let_def)
  moreover have "hdr (parseQuality t) = (\<not> noKeyword hdrKeywords t)"
    by (simp add: parseQuality_def noKeyword_def hdrKeywords_def Let_def)
  moreover have "parseQuality (js ''Movie.Name.2020'') =
     \<lparr>resolution = None, sourceType = None, codec = None, audio = None, hdr = False\<rparr>"
    by (simp add: parseQuality_def js_def toLowerCase_def toLowerUnit_def)
  ultimately show ?thesis by blast
qed

section \<open>Magnet links\<close>

lemma matchHere_lit:
  "matchHere ic (lit p @ r) prev s =
     (length p \<le> length s \<and> list_all2 (\<lambda>q c. atomMatches ic (Ch q) c) p (take (length p) s) \<and>
      matchHere ic r (if p = [] then prev else Some (s ! (length p - 1))) (drop (length p) s))"
proof (induction p arbitrary: prev s)
  case Nil
  show ?case by (simp add: lit_def)
next
  case (Cons q p)
  show ?case
  proof (cases s)
    case Nil
    then show ?thesis by (simp add: lit_def)
  next
    case (Cons c cs)
    with Cons.IH [of "Some c" cs] show ?thesis
      by (cases p) (auto simp: lit_def)
  qed
qed

lemma matchHere_replicate:
  "matchHere ic (replicate n (One a) @ r) prev s =
     (n \<le> length s \<and> list_all (atomMatches ic a) (take n s) \<and>
      matchHere ic r (if n = 0 then prev else Some (s ! (n - 1))) (drop n s))"
proof (induction n arbitrary: prev s)
  case 0
  show ?case by simp
next
  case (Suc n)
  show ?case
  proof (cases s)
    case Nil
    then show ?thesis by simp
  next
    case (Cons c cs)
    with Suc.IH [of "Some c" cs] show ?thesis
      by (cases n) auto
  qed
qed

lemma atomMatches_hex: "atomMatches ic HexDigit = isHexDigit"
  by (rule ext) simp

lemma btih_matchHere:
  "matchHere True btihRegex prev s =
     (45 \<le> length s \<and> list_all2 (\<lambda>q c. toUpperUnit c = toUpperUnit q) (js ''btih:'') (take 5 s) \<and>
      list_all isHexDigit (take 40 (drop 5 s)))"
proof -
  have len: "length (js ''btih:'') = 5" by (simp add: js_def)
  have "matchHere True btihRegex prev s =
     (5 \<le> length s \<and> list_all2 (\<lambda>q c. atomMatches True (Ch q) c) (js ''btih:'') (take 5 s) \<and>
      matchHere True (replicate 40 (One HexDigit) @ []) (if js ''btih:'' = [] then prev else Some (s ! (5 - 1))) (drop 5 s))"
    unfolding btihRegex_def using matchHere_lit [of True "js ''btih:''" "replicate 40 (One HexDigit) @ []" prev s] len
    by simp
  also have "\<dots> = (45 \<le> length s \<and> list_all2 (\<lambda>q c. toUpperUnit c = toUpperUnit q) (js ''btih:'') (take 5 s) \<and>
      list_all isHexDigit (take 40 (drop 5 s)))"
    unfolding matchHere_replicate by (auto simp: atomMatches_hex)
  finally show ?thesis .
qed

lemma firstMatch_suffix:
  "firstMatch ic rx prev s = Some m \<Longrightarrow> (\<exists>p. matchHere ic rx p m) \<and> suffix m s"
proof (induction s arbitrary: prev)
  case Nil
  then show ?case by (auto split: if_splits)
next
  case (Cons c cs)
  show ?case
  proof (cases "matchHere ic rx prev (c # cs)")
    case True
    with Cons.prems show ?thesis by auto
  next
    case False
    with Cons.prems have "firstMatch ic rx (Some c) cs = Some m" by simp
    from Cons.IH [OF this] show ?thesis by (auto simp: suffix_Cons)
  qed
qed

lemma toUpperUnit_hexDigit:
  assumes "isHexDigit c"
  shows "isHexDigit (toUpperUnit c) \<and> toUpperUnit (toUpperUnit c) = toUpperUnit c \<and> isUpperHex (toUpperUnit c)"
proof (cases "0x61 \<le> c")
  case True
  with assms have r: "c \<le> 0x66" by (simp add: isHexDigit_def isDigit_def)
  define d where "d = c - 0x20"
  from True r have d: "0x41 \<le> d" "d \<le> 0x46" unfolding d_def by arith+
  from True r have "toUpperUnit c = d" by (simp add: toUpperUnit_def d_def)
  moreover from d have "toUpperUnit d = d" by (simp add: toUpperUnit_def)
  moreover from d have "isHexDigit d" "isUpperHex d" by (simp_all add: isHexDigit_def isUpperHex_def)
  ultimately show ?thesis by simp
next
  case False
  then have u: "toUpperUnit c = c" by (simp add: toUpperUnit_def)
  from False assms have "isUpperHex c" by (simp add: isHexDigit_def isUpperHex_def)
  with u assms show ?thesis by simp
qed

lemma toUpperCase_hex_idem:
  "list_all isHexDigit h \<Longrightarrow> list_all isHexDigit (toUpperCase h) \<and> toUpperCase (toUpperCase h) = toUpperCase h"
  by (induction h) (simp_all add: toUpperCase_def toUpperUnit_hexDigit)

lemma extractInfoHash_shape:
  "extractInfoHash s = None \<or>
   (\<exists>H. extractInfoHash s = Some H \<and> length H = 40 \<and> list_all isUpperHex H)"
proof (cases "extractInfoHash s")
  case None
  then show ?thesis by simp
next
  case (Some H)
  then obtain m where fm: "firstMatch True btihRegex None s = Some m"
    and H: "H = toUpperCase (take 40 (drop 5 m))"
    by (auto simp: extractInfoHash_def split: if_splits option.splits)
  from firstMatch_suffix [OF fm] have "45 \<le> length m"
    and hx: "list_all isHexDigit (take 40 (drop 5 m))"
    by (auto simp: btih_matchHere)
  then have "length H = 40" using H by (simp add: toUpperCase_def)
  moreover have "list_all isUpperHex H"
    using hx H toUpperUnit_hexDigit by (auto simp: toUpperCase_def list_all_iff)
  ultimately show ?thesis using Some by simp
qed

lemma unreserved_not_surrogate: "isUriUnreserved c \<Longrightarrow> \<not> isHighSurrogate c \<and> \<not> isLowSurrogate c"
    by (auto simp: isUriUnreserved_def isAlpha_def isDigit_def isHighSurrogate_def isLowSurrogate_def)

lemma high_not_low_surrogate: "isHighSurrogate c \<Longrightarrow> \<not> isLowSurrogate c"
    by (auto simp: isHighSurrogate_def isLowSurrogate_def)

lemma encodeURIComponent_wellFormed:
  "(\<exists>r. encodeURIComponent s = Inr r) = isWellFormed s"
proof (induction s rule: isWellFormed.induct)
  case 1
  show ?case by simp
next
  case (2 c)
  show ?case using unreserved_not_surrogate [of c]
    by auto
next
  case (3 c d ds)
  show ?case
  proof (cases "isHighSurrogate c")
    case True
    with 3(1) high_not_low_surrogate [of c] unreserved_not_surrogate [of c] show ?thesis
      by (cases "encodeURIComponent ds") auto
  next
    case False
    note nh = this
    show ?thesis
    proof (cases "encodeURIComponent (d # ds)")
      case (Inl e)
      with 3(2) nh have "\<not> isWellFormed (d # ds)" by auto
      with Inl nh show ?thesis
        by (simp only: encodeURIComponent.simps(2) [of c] isWellFormed.simps) (auto simp: unreserved_not_surrogate)
    next
      case (Inr r)
      with 3(2) nh have "isWellFormed (d # ds)" by auto
      with Inr nh show ?thesis
        by (simp only: encodeURIComponent.simps(2) [of c] isWellFormed.simps) (auto simp: unreserved_not_surrogate)
    qed
  qed
qed
lemma appendTrackers_result:
  "appendTrackers m ts = Inr m' \<Longrightarrow> list_all isWellFormed ts \<and> prefix m m'"
proof (induction ts arbitrary: m)
  case Nil
  then show ?case by simp
next
  case (Cons t ts)
  from Cons.prems obtain enc where enc: "encodeURIComponent t = Inr enc"
    and rest: "appendTrackers (m @ js ''&tr='' @ enc) ts = Inr m'"
    by (auto split: sum.splits)
  from enc have "isWellFormed t" using encodeURIComponent_wellFormed [of t] by auto
  moreover from Cons.IH [OF rest] have "list_all isWellFormed ts" and "prefix (m @ js ''&tr='' @ enc) m'"
    by auto
  ultimately show ?case by (auto dest: append_prefixD)
qed

lemma appendTrackers_succeeds:
  "list_all isWellFormed ts \<Longrightarrow> \<exists>m'. appendTrackers m ts = Inr m'"
proof (induction ts arbitrary: m)
  case Nil
  show ?case by simp
next
  case (Cons t ts)
  then obtain enc where "encodeURIComponent t = Inr enc"
    using encodeURIComponent_wellFormed [of t] by auto
  with Cons show ?case by simp
qed

lemma defaultTrackers_wellFormed: "list_all isWellFormed defaultTrackers"
  by (simp add: defaultTrackers_def js_def isHighSurrogate_def isLowSurrogate_def)

lemma createMagnetLink_succeeds:
  assumes "wellFormedArgs name trackers"
  shows "\<exists>m. createMagnetLink h name trackers = Inr m"
proof -
  from assms have tr: "list_all isWellFormed (defaultTrackers @ trackers)"
    using defaultTrackers_wellFormed by (simp add: wellFormedArgs_def)
  have "\<exists>m0. (case name of
               None \<Rightarrow> Inr (js ''magnet:?xt=urn:btih:'' @ toUpperCase h)
             | Some n \<Rightarrow>
                 if n = [] then Inr (js ''magnet:?xt=urn:btih:'' @ toUpperCase h)
                 else (case encodeURIComponent n of
                         Inl e \<Rightarrow> Inl e
                       | Inr enc \<Rightarrow> Inr ((js ''magnet:?xt=urn:btih:'' @ toUpperCase h) @ js ''&dn='' @ enc))) = Inr m0"
  proof (cases name)
    case None
    then show ?thesis by simp
  next
    case (Some n)
    with assms have "isWellFormed n" by (simp add: wellFormedArgs_def)
    then obtain enc where "encodeURIComponent n = Inr enc"
      using encodeURIComponent_wellFormed [of n] by auto
    with Some show ?thesis by simp
  qed
  then obtain m0 where "(case name of
               None \<Rightarrow> Inr (js ''magnet:?xt=urn:btih:'' @ toUpperCase h)
             | Some n \<Rightarrow>
                 if n = [] then Inr (js ''magnet:?xt=urn:btih:'' @ toUpperCase h)
                 else (case encodeURIComponent n of
                         Inl e \<Rightarrow> Inl e
                       | Inr enc \<Rightarrow> Inr ((js ''magnet:?xt=urn:btih:'' @ toUpperCase h) @ js ''&dn='' @ enc))) = Inr m0" ..
  then have "createMagnetLink h name trackers = appendTrackers m0 (defaultTrackers @ trackers)"
    by (simp add: createMagnetLink_def Let_def)
  with appendTrackers_succeeds [OF tr, of m0] show ?thesis by simp
qed

lemma createMagnetLink_prefix:
  assumes "createMagnetLink h name trackers = Inr m"
  shows "prefix (js ''magnet:?xt=urn:btih:'' @ toUpperCase h) m"
proof -
  from assms obtain m0 where ap: "appendTrackers m0 (defaultTrackers @ trackers) = Inr m"
    and m0: "prefix (js ''magnet:?xt=urn:btih:'' @ toUpperCase h) m0"
    by (auto simp: createMagnetLink_def Let_def split: sum.splits option.splits if_splits)
  from appendTrackers_result [OF ap] have "prefix m0 m" by simp
  with m0 show ?thesis by (rule prefix_order.trans)
qed

lemma firstMatch_skip:
  "\<not> matchHere ic rx prev (c # cs) \<Longrightarrow> firstMatch ic rx prev (c # cs) = firstMatch ic rx (Some c) cs"
  by simp

lemma btih_no_match:
  "toUpperUnit c \<noteq> 0x42 \<Longrightarrow> \<not> matchHere True btihRegex prev (c # cs)"
  by (auto simp: btih_matchHere js_def toUpperUnit_def list_all2_Cons1 split: if_splits)

lemma firstMatch_hit:
  "matchHere ic rx prev (c # cs) \<Longrightarrow> firstMatch ic rx prev (c # cs) = Some (c # cs)"
  by simp

lemma extractInfoHash_magnet:
  assumes "length H = 40" "list_all isHexDigit H"
  shows "extractInfoHash (js ''magnet:?xt=urn:btih:'' @ H @ rest) = Some (toUpperCase H)"
proof -
  have m: "matchHere True btihRegex p (98 # 116 # 105 # 104 # 58 # H @ rest)" for p
    using assms by (simp add: btih_matchHere js_def)
  have "firstMatch True btihRegex None (js ''magnet:?xt=urn:btih:'' @ H @ rest) = Some (98 # 116 # 105 # 104 # 58 # H @ rest)"
    by (simp add: js_def btih_no_match toUpperUnit_def m firstMatch_hit del: firstMatch.simps add: firstMatch_skip)
  then show ?thesis using assms
    by (simp add: extractInfoHash_def js_def)
qed

lemma createMagnetLink_roundTrip:
  assumes "isInfoHash h" "wellFormedArgs name trackers"
  shows "magnetRoundTrip h name trackers"
proof -
  from createMagnetLink_succeeds [OF assms(2)] obtain m where m: "createMagnetLink h name trackers = Inr m" ..
  from createMagnetLink_prefix [OF m] obtain rest where r: "m = js ''magnet:?xt=urn:btih:'' @ toUpperCase h @ rest"
    by (auto simp: prefix_def)
  from assms(1) have "length (toUpperCase h) = 40" "list_all isHexDigit (toUpperCase h)"
      "toUpperCase (toUpperCase h) = toUpperCase h"
    using toUpperCase_hex_idem [of h] by (simp_all add: isInfoHash_def toUpperCase_def)
  with extractInfoHash_magnet [of "toUpperCase h" rest] r m show ?thesis
    by (simp add: magnetRoundTrip_def)
qed

text \<open>
  C10, as the code has it. For every 40-character hexadecimal string \<open>h\<close>, and every
  display name and tracker list without a lone surrogate, the magnet link is created and
  the hash extracted from it is \<open>h\<close> upper-cased; and for every string,
  \<open>extractInfoHash\<close> returns \<open>null\<close> or 40 upper-case hexadecimal digits.
\<close>

theorem extractInfoHash_createMagnetLink:
  "(isInfoHash h \<longrightarrow> wellFormedArgs name trackers \<longrightarrow> magnetRoundTrip h name trackers) \<and>
   (extractInfoHash s = None \<or>
    (\<exists>H. extractInfoHash s = Some H \<and> length H = 40 \<and> list_all isUpperHex H))"
  using createMagnetLink_roundTrip [of h name trackers] extractInfoHash_shape [of s]
  by blast

theorem extractInfoHash_createMagnetLink_witness:
  "magnetRoundTrip (js ''0123456789abcdef0123456789abcdef01234567'') (Some (js ''My Movie''))
     [js ''http://tracker.example/announce''] \<and>
   extractInfoHash (js ''magnet:?xt=urn:btih:0123456789abcdef0123456789abcdef01234567'') =
     Some (js ''0123456789ABCDEF0123456789ABCDEF01234567'')"
proof -
  have h: "isInfoHash (js ''0123456789abcdef0123456789abcdef01234567'')"
    by (simp add: isInfoHash_def js_def isHexDigit_def isDigit_def)
  have w: "wellFormedArgs (Some (js ''My Movie'')) [js ''http://tracker.example/announce'']"
    by (simp add: wellFormedArgs_def js_def isHighSurrogate_def isLowSurrogate_def)
  have "magnetRoundTrip (js ''0123456789abcdef0123456789abcdef01234567'') (Some (js ''My Movie''))
     [js ''http://tracker.example/announce'']"
    using extractInfoHash_createMagnetLink
      [of "js ''0123456789abcdef0123456789abcdef01234567''" "Some (js ''My Movie'')"
          "[js ''http://tracker.example/announce'']"] h w
    by blast
  moreover have "extractInfoHash (js ''magnet:?xt=urn:btih:0123456789abcdef0123456789abcdef01234567'') =
     Some (js ''0123456789ABCDEF0123456789ABCDEF01234567'')"
    by code_simp
  ultimately show ?thesis ..
qed

text \<open>
  C10 as stated fails on a display name with a lone surrogate: \<open>encodeURIComponent\<close>
  throws \<open>URIError\<close>, and no magnet link is created.
\<close>

theorem createMagnetLink_lone_surrogate_counterexample:
  "createMagnetLink (js ''0123456789abcdef0123456789abcdef01234567'') (Some [0xD800]) [] =
     Inl URIError \<and>
   \<not> magnetRoundTrip (js ''0123456789abcdef0123456789abcdef01234567'') (Some [0xD800]) []"
  by (simp add: magnetRoundTrip_def createMagnetLink_def isUriUnreserved_def isAlpha_def
      isDigit_def isLowSurrogate_def isHighSurrogate_def)

section \<open>Episode matching\<close>

text \<open>The definitions that evaluating a matcher on given file names unfolds.\<close>

lemmas matcher_defs =
  findEpisodeFile_def episodePatterns_def named_def atPath_def entryName_def truthy_def
  hasExt_def videoExts_def endsWith_def matchesAny_def regexTest_def lit_def zeros_def js_def
  toLowerCase_def toLowerUnit_def toUpperUnit_def isDigit_def isWordChar_def isWhiteSpace_def
  isLineTerminator_def natToString.simps findVideoFile_def videoFilePatterns_def
  handlerVideoExts_def padStart2_def

lemma findMatching_find:
  "findMatching (episodePatterns season episode) i fs =
     map_option fst (find (\<lambda>(k, file). matchesEpisode season episode file) (enumerate (Suc i) fs))"
  by (induction fs arbitrary: i) (simp_all add: matchesEpisode_def isVideoFile_def)

lemma firstVideo_find:
  "firstVideo i fs = map_option fst (find (\<lambda>(k, file). isVideoFile file) (enumerate (Suc i) fs))"
  by (induction fs arbitrary: i) (simp_all add: isVideoFile_def)

lemma findEpisodeFile_episodeMatcher:
  "findEpisodeFile fs season episode = episodeMatcher fs season episode"
  unfolding findEpisodeFile_def episodeMatcher_def firstIndexWhere_def
  by (simp add: findMatching_find firstVideo_find split: option.splits)

lemma find_enumerate_None:
  "(find (\<lambda>(k, x). P x) (enumerate n xs) = None) = (\<forall>x \<in> set xs. \<not> P x)"
  by (induction xs arbitrary: n) auto

lemma find_enumerate_Some:
  "(map_option fst (find (\<lambda>(k, x). P x) (enumerate n xs)) = Some k) =
     (n \<le> k \<and> k < n + length xs \<and> P (xs ! (k - n)) \<and> (\<forall>j < k - n. \<not> P (xs ! j)))"
proof (induction xs arbitrary: n)
  case Nil
  show ?case by simp
next
  case (Cons x xs)
  show ?case
  proof (cases "P x")
    case True
    have "\<not> (\<forall>j < k - n. \<not> P ((x # xs) ! j))" if "n < k"
      using that True by (auto intro!: exI [of _ 0])
    with True show ?thesis by (cases "k = n") auto
  next
    case False
    have "(map_option fst (find (\<lambda>(k, x). P x) (enumerate n (x # xs))) = Some k) =
       (Suc n \<le> k \<and> k < Suc n + length xs \<and> P (xs ! (k - Suc n)) \<and> (\<forall>j < k - Suc n. \<not> P (xs ! j)))"
      using False Cons.IH [of "Suc n"] by simp
    also have "\<dots> = (n \<le> k \<and> k < n + length (x # xs) \<and> P ((x # xs) ! (k - n)) \<and> (\<forall>j < k - n. \<not> P ((x # xs) ! j)))"
    proof (cases "Suc n \<le> k")
      case True
      then obtain d where d: "k = Suc n + d" by (metis le_iff_add)
      have "(\<forall>j < Suc d. \<not> P ((x # xs) ! j)) = (\<forall>j < d. \<not> P (xs ! j))"
        using False by (auto simp: nth_Cons less_Suc_eq_0_disj)
      then show ?thesis using d by simp
    next
      case False
      with \<open>\<not> P x\<close> show ?thesis by (cases "k = n") auto
    qed
    finally show ?thesis .
  qed
qed

lemma firstIndexWhere_Some:
  "(firstIndexWhere P fs = Some k) =
     (1 \<le> k \<and> k \<le> length fs \<and> P (fs ! (k - 1)) \<and> (\<forall>j < k - 1. \<not> P (fs ! j)))"
  unfolding firstIndexWhere_def find_enumerate_Some by auto

lemma firstIndexWhere_None:
  "(firstIndexWhere P fs = None) = (\<forall>file \<in> set fs. \<not> P file)"
  by (simp add: firstIndexWhere_def find_enumerate_None)

lemma random_mkv_is_video: "hasExt videoExts (entryName (named ''random.mkv''))"
  by (simp add: matcher_defs)

lemma readme_txt_is_no_video: "\<not> hasExt videoExts (entryName (named ''readme.txt''))"
  by (simp add: matcher_defs)

lemma findEpisodeFile_example:
  "findEpisodeFile [named ''Show.S01E01.mkv'', named ''Show.S01E02.mkv'', named ''sample.txt'']
     (JInt 1) (JInt 2) = Some 2"
  by (simp add: matcher_defs)

text \<open>
  The Episode Matcher of \<open>lib/utils.js\<close>. \<open>findEpisodeFile\<close> returns the 1-based index
  of the first video file, in the list's order, whose name matches one of the episode
  patterns; when no video file matches, the 1-based index of the first video file; and
  \<open>null\<close> when the list has no video file. It has no throwing branch. On the lists
  \<open>[Show.S01E01.mkv, Show.S01E02.mkv, sample.txt]\<close> (season 1, episode 2),
  \<open>[random.mkv]\<close> and \<open>[readme.txt]\<close> it returns 2, 1 and \<open>null\<close>.
\<close>

theorem findEpisodeFile_first_match_or_first_video:
  "findEpisodeFile fs season episode = episodeMatcher fs season episode \<and>
   findEpisodeFile [named ''Show.S01E01.mkv'', named ''Show.S01E02.mkv'', named ''sample.txt'']
     (JInt 1) (JInt 2) = Some 2 \<and>
   findEpisodeFile [named ''random.mkv''] season episode = Some 1 \<and>
   findEpisodeFile [named ''readme.txt''] season episode = None"
proof -
  have "findEpisodeFile [named ''random.mkv''] season episode = Some 1"
    using random_mkv_is_video by (simp add: findEpisodeFile_def)
  moreover have "findEpisodeFile [named ''readme.txt''] season episode = None"
    using readme_txt_is_no_video by (simp add: findEpisodeFile_def)
  ultimately show ?thesis
    using findEpisodeFile_episodeMatcher [of fs season episode] findEpisodeFile_example
    by simp
qed

text \<open>The handler's \<open>findVideoFile\<close> gives the same answers on the three lists.\<close>

lemma findVideoFile_examples:
  "findVideoFile [atPath ''Show.S01E01.mkv'', atPath ''Show.S01E02.mkv'', atPath ''sample.txt'']
     (JInt 1) (JInt 2) = Inr (Some 2) \<and>
   findVideoFile [atPath ''random.mkv''] (JInt 1) (JInt 2) = Inr (Some 1) \<and>
   findVideoFile [atPath ''readme.txt''] (JInt 1) (JInt 2) = Inr None"
  by (simp add: matcher_defs)

text \<open>
  C2, evaluated on the code. Searching for season 1, episode 1: the handler's
  \<open>findVideoFile\<close> selects the file marked \<open>S01E10\<close> although the file marked \<open>S01E01\<close>
  follows it, because its expressions end with the episode number and no boundary; and
  \<open>findEpisodeFile\<close> selects \<open>Season 1 Episode 10\<close> through its third expression, which
  has no boundary either. Through its first expression, which ends with \<open>(?!\d)\<close>,
  \<open>findEpisodeFile\<close> passes over \<open>S01E10\<close> and selects \<open>S01E01\<close>.
\<close>

theorem episode_boundary_missing:
  "findVideoFile [atPath ''Show.S01E10.mkv'', atPath ''Show.S01E01.mkv''] (JInt 1) (JInt 1) =
     Inr (Some 1) \<and>
   findEpisodeFile [named ''Season 1 Episode 10.mkv'', named ''Season 1 Episode 1.mkv'']
     (JInt 1) (JInt 1) = Some 1 \<and>
   findEpisodeFile [named ''Show.S01E10.mkv'', named ''Show.S01E01.mkv''] (JInt 1) (JInt 1) =
     Some 2"
  by (simp add: matcher_defs)

section \<open>Aggregation\<close>

lemma insertWith_insort: "insertWith seedersCompare x ys = insort_key (\<lambda>t. - seedersOr0 t) x ys"
  by (induction ys) (auto simp: seedersCompare_def)

lemma sortWith_sort_key: "sortWith seedersCompare xs = sort_key (\<lambda>t. - seedersOr0 t) xs"
  by (induction xs) (simp_all add: sortWith_def sort_key_def insertWith_insort)

lemma collect_concat: "collect acc rs = acc @ concat (map outputOf rs)"
  by (induction acc rs rule: collect.induct) simp_all

lemma search_sorted_outputs:
  "search en r1 r2 r3 = sort_key (\<lambda>t. - seedersOr0 t) (successfulOutputs en r1 r2 r3)"
  by (simp add: search_def successfulOutputs_def collect_concat sortWith_sort_key)

lemma bySeeders_sorted: "bySeedersDescending ts = sorted (map (\<lambda>t. - seedersOr0 t) ts)"
  by (induction ts) (auto simp: bySeedersDescending_def)

lemma sort_key_id: "sorted (map f xs) \<Longrightarrow> sort_key f xs = xs"
  by (induction xs) (auto simp: insort_is_Cons)


text \<open>
  C7, as the code has it. \<open>search\<close> returns the candidates of the enabled adapters that
  succeeded (each as often as it was found), ordered by seeder count, highest first,
  candidates with equal counts in the order of the concatenation; it is the
  concatenation itself when that is already so ordered. An adapter that throws or
  times out, or whose promise is rejected, contributes nothing. \<open>search\<close> has no
  throwing branch.
\<close>

theorem search_fail_soft:
  "mset (search en r1 r2 r3) = mset (successfulOutputs en r1 r2 r3) \<and>
   bySeedersDescending (search en r1 r2 r3) \<and>
   (\<forall>k. filter (\<lambda>t. seedersOr0 t = k) (search en r1 r2 r3) =
        filter (\<lambda>t. seedersOr0 t = k) (successfulOutputs en r1 r2 r3)) \<and>
   (bySeedersDescending (successfulOutputs en r1 r2 r3) \<longrightarrow>
      search en r1 r2 r3 = successfulOutputs en r1 r2 r3) \<and>
   search en (Fulfilled (searchTracker Threw)) r2 r3 = search en Rejected r2 r3"
proof -
  let ?f = "\<lambda>t. - seedersOr0 t"
  let ?out = "successfulOutputs en r1 r2 r3"
  have eq: "search en r1 r2 r3 = sort_key ?f ?out"
    by (rule search_sorted_outputs)
  have "filter (\<lambda>t. seedersOr0 t = k) (sort_key ?f ?out) = filter (\<lambda>t. seedersOr0 t = k) ?out"
    for k
    using filter_sort [of "\<lambda>t. ?f t = - k" ?f ?out] sort_key_stable [of ?f "- k" ?out]
    by simp
  moreover have "bySeedersDescending (sort_key ?f ?out)"
    by (simp add: bySeeders_sorted)
  moreover have "bySeedersDescending ?out \<longrightarrow> sort_key ?f ?out = ?out"
    by (simp add: bySeeders_sorted sort_key_id)
  moreover have "search en (Fulfilled (searchTracker Threw)) r2 r3 = search en Rejected r2 r3"
    by (simp add: search_def searchTracker_def)
  ultimately show ?thesis
    unfolding eq by simp
qed

theorem search_fail_soft_witness:
  "search \<lparr>rutor = True, rutracker = True, kinozal = True\<rparr> Rejected
     (Fulfilled [candidate ''A'' 5 ''4K'', candidate ''B'' 1 ''720p'']) (Fulfilled []) =
   [candidate ''A'' 5 ''4K'', candidate ''B'' 1 ''720p'']"
proof -
  let ?en = "\<lparr>rutor = True, rutracker = True, kinozal = True\<rparr>"
  let ?r = "Fulfilled [candidate ''A'' 5 ''4K'', candidate ''B'' 1 ''720p'']"
  have out: "successfulOutputs ?en Rejected ?r (Fulfilled []) =
      [candidate ''A'' 5 ''4K'', candidate ''B'' 1 ''720p'']"
    by (simp add: successfulOutputs_def)
  have "bySeedersDescending (successfulOutputs ?en Rejected ?r (Fulfilled []))"
    unfolding out by (simp add: bySeedersDescending_def seedersOr0_def candidate_def)
  with search_fail_soft [of ?en Rejected ?r "Fulfilled []"] out show ?thesis
    by simp
qed

text \<open>
  C7 as stated fails when the successful adapter's output is not ordered by seeders:
  the returned list is reordered, so it is not the concatenation.
\<close>

theorem search_reorders_counterexample:
  "search \<lparr>rutor = True, rutracker = True, kinozal = True\<rparr> Rejected
     (Fulfilled [candidate ''B'' 1 ''720p'', candidate ''A'' 5 ''4K'']) (Fulfilled []) \<noteq>
   successfulOutputs \<lparr>rutor = True, rutracker = True, kinozal = True\<rparr> Rejected
     (Fulfilled [candidate ''B'' 1 ''720p'', candidate ''A'' 5 ''4K'']) (Fulfilled [])"
  by (simp add: search_def successfulOutputs_def sortWith_def seedersCompare_def
      seedersOr0_def candidate_def js_def)

section \<open>Ranking\<close>


















text \<open>The definitions that evaluating a ranking of given candidates unfolds.\<close>

lemmas ranking_defs =
  sortByPriority_def sortWith_def priorityCompare_def orderedFirst_def seedersOr0_def
  priorityOf_def tablePriority_def candidate_def qualityPriority_def js_def sortValue_def
  subtract_def inheritedKeys_def plainLabel_def ruleConsistent_def

text \<open>
  The rule is cyclic on three candidates with 0, 8 and 16 seeders and falling quality:
  none of their six orders respects it, whatever the engine's sort does.
\<close>

lemma ranking_rule_cyclic:
  "\<not> respectsRanking [candidate ''A'' 0 ''4K'', candidate ''B'' 8 ''1080p'', candidate ''C'' 16 ''480p''] \<and>
   \<not> respectsRanking [candidate ''A'' 0 ''4K'', candidate ''C'' 16 ''480p'', candidate ''B'' 8 ''1080p''] \<and>
   \<not> respectsRanking [candidate ''B'' 8 ''1080p'', candidate ''A'' 0 ''4K'', candidate ''C'' 16 ''480p''] \<and>
   \<not> respectsRanking [candidate ''B'' 8 ''1080p'', candidate ''C'' 16 ''480p'', candidate ''A'' 0 ''4K''] \<and>
   \<not> respectsRanking [candidate ''C'' 16 ''480p'', candidate ''A'' 0 ''4K'', candidate ''B'' 8 ''1080p''] \<and>
   \<not> respectsRanking [candidate ''C'' 16 ''480p'', candidate ''B'' 8 ''1080p'', candidate ''A'' 0 ''4K'']"
  by (simp add: ranking_defs)

text \<open>
  Consistency is more than the absence of cycles: with 0, 8 and 16 seeders and one
  quality, neighbours tie while the ends do not, and the stable sort leaves the
  candidate with 16 seeders behind the one with none.
\<close>

lemma ranking_rule_ties:
  "\<not> ruleConsistent
     [candidate ''C'' 0 ''1080p'', candidate ''B'' 8 ''1080p'', candidate ''A'' 16 ''1080p''] \<and>
   \<not> respectsRanking (sortByPriority
     [candidate ''C'' 0 ''1080p'', candidate ''B'' 8 ''1080p'', candidate ''A'' 16 ''1080p''])"
  by (simp add: ranking_defs)

text \<open>
  A quality label that names an inherited member makes the comparator \<open>NaN\<close>, and the
  two candidates stay as they are.
\<close>

lemma sortByPriority_inherited_label:
  "sortByPriority [candidate ''A'' 0 ''constructor'', candidate ''B'' 0 ''4K''] =
     [candidate ''A'' 0 ''constructor'', candidate ''B'' 0 ''4K'']"
  by (simp add: ranking_defs)




section \<open>The availability loop\<close>

lemma availabilityLoop_acc:
  "availabilityLoop rd ty s e acc ts = acc @ availabilityLoop rd ty s e [] ts"
proof (induction ts arbitrary: acc)
  case Nil
  show ?case by simp
next
  case (Cons t ts)
  show ?case
  proof (cases "resolveTorrent rd ty s e t")
    case (Inl err)
    with Cons [of acc] show ?thesis by simp
  next
    case (Inr r)
    show ?thesis
    proof (cases r)
      case None
      with Inr Cons [of acc] show ?thesis by simp
    next
      case (Some st)
      with Inr Cons [of "acc @ [st]"] Cons [of "[st]"] show ?thesis by simp
    qed
  qed
qed

lemma availabilityLoop_Cons:
  "availabilityLoop rd ty s e [] (t # ts) =
     (case resolveTorrent rd ty s e t of
        Inl err \<Rightarrow> []
      | Inr None \<Rightarrow> []
      | Inr (Some st) \<Rightarrow> [st]) @ availabilityLoop rd ty s e [] ts"
proof (cases "resolveTorrent rd ty s e t")
  case (Inl err)
  then show ?thesis by simp
next
  case (Inr r)
  show ?thesis
  proof (cases r)
    case None
    with Inr show ?thesis by simp
  next
    case (Some st)
    with Inr availabilityLoop_acc [of rd ty s e "[st]" ts] show ?thesis by simp
  qed
qed

lemma availabilityLoop_append:
  "availabilityLoop rd ty s e [] (xs @ ys) =
     availabilityLoop rd ty s e [] xs @ availabilityLoop rd ty s e [] ys"
  by (induction xs) (simp_all add: availabilityLoop_Cons del: availabilityLoop.simps(2))

lemma resolveTorrent_unavailable:
  "\<not> isAvailable rd t \<Longrightarrow> resolveTorrent rd ty s e t = Inr None"
  by (simp add: resolveTorrent_def isAvailable_def)

lemma resolveTorrent_non_episodic:
  "isAvailable rd t \<Longrightarrow> ty \<noteq> js ''series'' \<Longrightarrow>
   resolveTorrent rd ty s e t = Inr (Some (buildStream t None))"
  by (simp add: resolveTorrent_def isAvailable_def)

lemma threw_unavailable: "rd (infoHash t) = Threw \<Longrightarrow> \<not> isAvailable rd t"
  by (simp add: isAvailable_def checkAvailability_def)

lemma availabilityLoop_skip:
  "\<not> isAvailable rd t \<Longrightarrow>
   availabilityLoop rd ty s e [] (before @ t # after) = availabilityLoop rd ty s e [] (before @ after)"
  by (simp add: availabilityLoop_append availabilityLoop_Cons resolveTorrent_unavailable
      del: availabilityLoop.simps(2))

lemma availabilityLoop_non_episodic:
  "ty \<noteq> js ''series'' \<Longrightarrow>
   availabilityLoop rd ty s e [] ts = map (\<lambda>t. buildStream t None) (filter (isAvailable rd) ts)"
  by (induction ts)
    (simp_all add: availabilityLoop_Cons resolveTorrent_unavailable resolveTorrent_non_episodic
      del: availabilityLoop.simps(2))

text \<open>
  C8. In the loop over the ranked candidates, a candidate that the provider reports
  unavailable emits no stream and leaves the streams of the others as they are, whatever
  the media type; a provider call that fails makes its candidate unavailable; and for
  media that is not a series, the streams emitted over the first 15 candidates are
  those of the available candidates, in rank order, each with the file index \<open>null\<close>.
\<close>

theorem availability_resolver:
  "(\<not> isAvailable rd t \<longrightarrow>
      availabilityLoop rd ty s e [] (xs @ t # ys) = availabilityLoop rd ty s e [] (xs @ ys)) \<and>
   (rd (infoHash t) = Threw \<longrightarrow> \<not> isAvailable rd t) \<and>
   (ty \<noteq> js ''series'' \<longrightarrow>
      resolveAvailability rd ty s e torrents =
        map (\<lambda>t. buildStream t None) (filter (isAvailable rd) (take 15 torrents)) \<and>
      list_all (\<lambda>st. fileIdx st = None) (resolveAvailability rd ty s e torrents))"
proof -
  have "list_all (\<lambda>st. fileIdx st = None) (map (\<lambda>t. buildStream t None) zs)" for zs
    by (induction zs) (simp_all add: buildStream_def)
  then show ?thesis
    using availabilityLoop_skip [of rd t ty s e xs ys] threw_unavailable [of rd t]
      availabilityLoop_non_episodic [of ty rd s e "take 15 torrents"]
    by (simp add: resolveAvailability_def)
qed

theorem availability_resolver_witness:
  "resolveAvailability exampleProvider (js ''movie'') JNull JNull
     [candidate ''A'' 9 ''1080p'', candidate ''B'' 5 ''1080p'', candidate ''C'' 1 ''720p''] =
     [buildStream (candidate ''A'' 9 ''1080p'') None, buildStream (candidate ''C'' 1 ''720p'') None] \<and>
   availabilityLoop exampleProvider (js ''series'') (JInt 1) (JInt 1) []
     ([candidate ''A'' 9 ''1080p''] @ candidate ''B'' 5 ''1080p'' # [candidate ''C'' 1 ''720p'']) =
   availabilityLoop exampleProvider (js ''series'') (JInt 1) (JInt 1) []
     ([candidate ''A'' 9 ''1080p''] @ [candidate ''C'' 1 ''720p''])"
proof -
  have threw: "exampleProvider (infoHash (candidate ''B'' 5 ''1080p'')) = Threw"
    by (simp add: exampleProvider_def candidate_def)
  have movie: "js ''movie'' \<noteq> js ''series''"
    by (simp add: js_def)
  have av: "isAvailable exampleProvider (candidate ''A'' 9 ''1080p'')"
      "\<not> isAvailable exampleProvider (candidate ''B'' 5 ''1080p'')"
      "isAvailable exampleProvider (candidate ''C'' 1 ''720p'')"
    by (simp_all add: isAvailable_def exampleProvider_def candidate_def checkAvailability_def
        js_def)
  show ?thesis
    using availability_resolver [of exampleProvider "candidate ''B'' 5 ''1080p''"
        "js ''series''" "JInt 1" "JInt 1" "[candidate ''A'' 9 ''1080p'']"
        "[candidate ''C'' 1 ''720p'']"]
      availability_resolver [of exampleProvider "candidate ''B'' 5 ''1080p''"
        "js ''movie''" JNull JNull "[]" "[]"
        "[candidate ''A'' 9 ''1080p'', candidate ''B'' 5 ''1080p'', candidate ''C'' 1 ''720p'']"]
      threw movie av
    by simp
qed

section \<open>The result cache and the credential\<close>

lemma cacheKey_inject: "(cacheKey i k1 = cacheKey i k2) = (take 8 k1 = take 8 k2)"
  by (simp add: cacheKey_def)

lemma getCache_other:
  "k \<noteq> k' \<Longrightarrow> fst (getCache (setCache c t k d) t' k') = fst (getCache c t' k')"
  by (simp add: getCache_def setCache_def split: option.splits)

lemma resolve_reads_own_key:
  assumes "c (cacheKey i k) = c' (cacheKey i k)"
  shows "fst (resolve w n l c ty i k) = fst (resolve w n l c' ty i k) \<and>
         fst (snd (resolve w n l c ty i k)) = fst (snd (resolve w n l c' ty i k))"
  using assms
  by (simp add: resolve_def getCache_def Let_def split: option.splits prod.splits)

lemma resolve_writes_own_key:
  "k' \<noteq> cacheKey i k \<Longrightarrow> snd (snd (resolve w n l c ty i k)) k' = c k'"
  by (simp add: resolve_def getCache_def setCache_def Let_def split: option.splits prod.splits)

lemma findStreams_example:
  "findStreams exampleWorld (js ''movie'') (js ''tt0111161'') JNull JNull key =
     ([buildStream exampleTorrent None],
      [MetadataCall, RutorCall, RutrackerCall, KinozalCall,
       AvailabilityCall (infoHash exampleTorrent)])"
  by (simp add: findStreams_def exampleWorld_def search_def searchTracker_def sortWith_def
      resolveAvailability_def resolveTorrent_def checkAvailability_def js_def)

lemma findStreams_silent:
  "findStreams silentWorld (js ''movie'') (js ''tt0111161'') JNull JNull key =
     ([], [MetadataCall, RutorCall, RutrackerCall, KinozalCall])"
  by (simp add: findStreams_def silentWorld_def search_def searchTracker_def sortWith_def
      resolveAvailability_def)

lemma split_example: "split 0x3A (js ''tt0111161'') = [js ''tt0111161'']"
  by (simp add: js_def)

lemma movie_not_series: "js ''movie'' \<noteq> js ''series''"
  by (simp add: js_def)

lemma resolve_example:
  "resolve exampleWorld now later Map.empty (js ''movie'') (js ''tt0111161'') key =
     ([Stream (buildStream exampleTorrent None)],
      [MetadataCall, RutorCall, RutrackerCall, KinozalCall,
       AvailabilityCall (infoHash exampleTorrent)],
      [cacheKey (js ''tt0111161'') key \<mapsto>
         \<lparr>cachedData = [buildStream exampleTorrent None], timestamp = later\<rparr>])"
  by (simp add: resolve_def split_example movie_not_series findStreams_example getCache_def
      setCache_def)

lemma resolve_silent:
  "fst (resolve silentWorld now later Map.empty (js ''movie'') (js ''tt0111161'') key) = []"
  by (simp add: resolve_def split_example movie_not_series findStreams_silent getCache_def)

lemma resolve_hit:
  "now - later \<le> CACHE_TTL \<Longrightarrow> cacheKey ident key = k \<Longrightarrow>
   resolve w now later' [k \<mapsto> \<lparr>cachedData = d, timestamp = later\<rparr>] ty ident key =
     (map Stream d, [], [k \<mapsto> \<lparr>cachedData = d, timestamp = later\<rparr>])"
  by (simp add: resolve_def getCache_def Let_def)

lemma keys_collide: "cacheKey i (js ''ABCDEFGH-ACCOUNT-1'') = cacheKey i (js ''ABCDEFGH-ACCOUNT-2'')"
  by (simp add: cacheKey_def js_def)

text \<open>
  C1, as the code has it. Two requests for the same media id whose credentials differ
  within their first 8 characters have different cache keys, an entry written under one
  key is not read under the other, and the answer and the calls of the second request
  are what they would be had the first request never been made.
\<close>

theorem cache_separates_key_prefixes:
  assumes "take 8 k1 \<noteq> take 8 k2"
  shows "cacheKey i k1 \<noteq> cacheKey i k2 \<and>
    fst (getCache (setCache c t (cacheKey i k1) d) t' (cacheKey i k2)) =
      fst (getCache c t' (cacheKey i k2)) \<and>
    fst (resolve w2 n2 l2 (snd (snd (resolve w1 n1 l1 c ty1 i k1))) ty2 i k2) =
      fst (resolve w2 n2 l2 c ty2 i k2) \<and>
    fst (snd (resolve w2 n2 l2 (snd (snd (resolve w1 n1 l1 c ty1 i k1))) ty2 i k2)) =
      fst (snd (resolve w2 n2 l2 c ty2 i k2))"
proof -
  from assms have ne: "cacheKey i k1 \<noteq> cacheKey i k2"
    by (simp add: cacheKey_inject)
  then have "snd (snd (resolve w1 n1 l1 c ty1 i k1)) (cacheKey i k2) = c (cacheKey i k2)"
    using resolve_writes_own_key [of "cacheKey i k2" i k1 w1 n1 l1 c ty1] by simp
  then have "fst (resolve w2 n2 l2 (snd (snd (resolve w1 n1 l1 c ty1 i k1))) ty2 i k2) =
      fst (resolve w2 n2 l2 c ty2 i k2) \<and>
    fst (snd (resolve w2 n2 l2 (snd (snd (resolve w1 n1 l1 c ty1 i k1))) ty2 i k2)) =
      fst (snd (resolve w2 n2 l2 c ty2 i k2))"
    by (rule resolve_reads_own_key)
  with ne getCache_other [OF ne, of c t d t'] show ?thesis by simp
qed

theorem cache_separates_key_prefixes_witness:
  "cacheKey (js ''tt0111161'') (js ''ABCDEFGH-ACCOUNT-1'') \<noteq>
     cacheKey (js ''tt0111161'') (js ''ZYXWVUTS-ACCOUNT-3'') \<and>
   fst (resolve silentWorld 1000 1000
          (snd (snd (resolve exampleWorld 0 0 Map.empty (js ''movie'') (js ''tt0111161'')
             (js ''ABCDEFGH-ACCOUNT-1''))))
          (js ''movie'') (js ''tt0111161'') (js ''ZYXWVUTS-ACCOUNT-3'')) = []"
proof -
  have "take 8 (js ''ABCDEFGH-ACCOUNT-1'') \<noteq> take 8 (js ''ZYXWVUTS-ACCOUNT-3'')"
    by (simp add: js_def)
  from cache_separates_key_prefixes [OF this, of "js ''tt0111161''" Map.empty 0 "[]" 0
      silentWorld 1000 1000 exampleWorld 0 0 "js ''movie''" "js ''movie''"]
  show ?thesis
    by (simp add: resolve_silent)
qed

text \<open>
  C1 as stated fails for two credentials that agree in their first 8 characters: the
  second account's request, which resolves to nothing on its own, is answered with the
  stream that the first account's request cached, and makes no call.
\<close>

theorem cache_shared_prefix_counterexample:
  "fst (streamHandler silentWorld 1000 1000
          (snd (snd (streamHandler exampleWorld 0 0 Map.empty firstAccount))) secondAccount) =
     [Stream (buildStream exampleTorrent None)] \<and>
   fst (snd (streamHandler silentWorld 1000 1000
          (snd (snd (streamHandler exampleWorld 0 0 Map.empty firstAccount))) secondAccount)) = [] \<and>
   fst (streamHandler silentWorld 1000 1000 Map.empty secondAccount) = []"
proof -
  have c1: "hasCredential (userConfig firstAccount)" "hasCredential (userConfig secondAccount)"
    by (simp_all add: firstAccount_def secondAccount_def requestWith_def hasCredential_def truthy_def js_def)
  have first: "snd (snd (streamHandler exampleWorld 0 0 Map.empty firstAccount)) =
      [cacheKey (js ''tt0111161'') (js ''ABCDEFGH-ACCOUNT-1'') \<mapsto>
         \<lparr>cachedData = [buildStream exampleTorrent None], timestamp = 0\<rparr>]"
    using c1 by (simp add: streamHandler_def firstAccount_def requestWith_def resolve_example)
  have second: "streamHandler silentWorld 1000 1000
      [cacheKey (js ''tt0111161'') (js ''ABCDEFGH-ACCOUNT-1'') \<mapsto>
         \<lparr>cachedData = [buildStream exampleTorrent None], timestamp = 0\<rparr>] secondAccount =
      ([Stream (buildStream exampleTorrent None)], [],
       [cacheKey (js ''tt0111161'') (js ''ABCDEFGH-ACCOUNT-1'') \<mapsto>
         \<lparr>cachedData = [buildStream exampleTorrent None], timestamp = 0\<rparr>])"
    using c1 keys_collide [of "js ''tt0111161''"]
    by (simp add: streamHandler_def secondAccount_def requestWith_def resolve_hit CACHE_TTL_def)
  have alone: "fst (streamHandler silentWorld 1000 1000 Map.empty secondAccount) = []"
    using c1 by (simp add: streamHandler_def secondAccount_def requestWith_def resolve_silent)
  show ?thesis unfolding first second using alone by simp
qed

lemma streamHandler_missing_credential:
  "\<not> hasCredential (userConfig req) \<Longrightarrow>
   streamHandler w now later c req = ([ConfigurationRequired], [], c)"
  by (simp add: streamHandler_def)

lemma streamHandlerUnchecked_empty_key:
  "fst (snd (streamHandlerUnchecked silentWorld 0 0 Map.empty
     (requestWith (Some \<lparr>rdApiKey = Some []\<rparr>)))) =
   [MetadataCall, RutorCall, RutrackerCall, KinozalCall]"
  by (simp add: streamHandlerUnchecked_def requestWith_def resolve_def split_example
      movie_not_series findStreams_silent getCache_def)

text \<open>
  C9, evaluated on the code. For a request without an API key, or without a
  configuration, the handler that has no credential check answers with the error notice
  made from the caught \<open>TypeError\<close>; the handler with the check answers with the notice
  that asks for the key. Neither makes a call or touches the cache.
\<close>

theorem missing_credential_answers:
  "streamHandlerUnchecked w now later c (requestWith (Some \<lparr>rdApiKey = None\<rparr>)) =
     ([ErrorNotice TypeError], [], c) \<and>
   streamHandlerUnchecked w now later c (requestWith None) = ([ErrorNotice TypeError], [], c) \<and>
   streamHandler w now later c (requestWith (Some \<lparr>rdApiKey = None\<rparr>)) =
     ([ConfigurationRequired], [], c) \<and>
   streamHandler w now later c (requestWith None) = ([ConfigurationRequired], [], c)"
  by (simp add: streamHandlerUnchecked_def streamHandler_def requestWith_def hasCredential_def
      truthy_def)

section \<open>The handler's matcher\<close>

lemma movie_file_throws:
  "findVideoFile [\<lparr>path = Some (js ''Movie.mkv''), fileName = None\<rparr>] JNull JNull = Inl TypeError"
  by (simp add: matcher_defs)

lemma findStreams_series:
  "findStreams exampleWorld (js ''series'') (js ''tt0111161'') JNull JNull key =
     ([], [MetadataCall, RutorCall, RutrackerCall, KinozalCall,
           AvailabilityCall (infoHash exampleTorrent)])"
  by (simp add: findStreams_def exampleWorld_def search_def searchTracker_def sortWith_def
      resolveAvailability_def resolveTorrent_def checkAvailability_def movie_file_throws)

lemma no_colon: "\<not> strIncludes (js ''tt0111161'') (js '':'')"
  by (simp add: js_def)

lemma resolve_series:
  "fst (resolve exampleWorld now later Map.empty (js ''series'') (js ''tt0111161'') key) = []"
  by (simp add: resolve_def split_example no_colon findStreams_series getCache_def)

text \<open>
  C5, evaluated on the code. The handler's \<open>findVideoFile\<close> throws \<open>TypeError\<close> where
  the Episode Matcher is to return an index: on the episode \<open>null\<close>, which the handler
  passes for a series id without a colon, and on a file without a path.
  \<open>findEpisodeFile\<close> returns 1 on the same lists. In the handler the loop catches the
  throw, and the stream of the available torrent is lost.
\<close>

theorem findVideoFile_throws:
  "findVideoFile [atPath ''Show.S01E01.mkv''] JNull JNull = Inl TypeError \<and>
   findEpisodeFile [atPath ''Show.S01E01.mkv''] JNull JNull = Some 1 \<and>
   findVideoFile [named ''a.mkv''] (JInt 1) (JInt 1) = Inl TypeError \<and>
   findEpisodeFile [named ''a.mkv''] (JInt 1) (JInt 1) = Some 1 \<and>
   fst (resolve exampleWorld now later Map.empty (js ''series'') (js ''tt0111161'') key) = []"
proof -
  have "findVideoFile [atPath ''Show.S01E01.mkv''] JNull JNull = Inl TypeError \<and>
     findEpisodeFile [atPath ''Show.S01E01.mkv''] JNull JNull = Some 1 \<and>
     findVideoFile [named ''a.mkv''] (JInt 1) (JInt 1) = Inl TypeError \<and>
     findEpisodeFile [named ''a.mkv''] (JInt 1) (JInt 1) = Some 1"
    by (simp add: matcher_defs)
  with resolve_series [of now later key] show ?thesis by simp
qed

end
